theory Spec2Isabelle
  imports Main
begin

section \<open>Python values and exceptions\<close>

text \<open>
  The module \<^verbatim>\<open>src/utils/captcha/two_captcha.py\<close> glues a browser session
  (Selenium) to a solving service (2Captcha). It is dynamically typed: the wrapper
  \<^verbatim>\<open>_solve_captcha\<close> returns a triple on most paths and the raw solver result
  or \<^verbatim>\<open>None\<close> on others, and its callers unpack whatever comes back. The values
  that flow through those places are therefore modelled by one datatype.

  Strings are ASCII texts (\<^typ>\<open>string\<close>); bytes are lists of characters as well.
\<close>

text \<open>
  The exception classes the handlers of the module tell apart. \<open>OtherException n\<close> is
  any other class \<open>n\<close> derived from \<^verbatim>\<open>Exception\<close>; \<open>BaseOnly n\<close> is a class
  derived from \<^verbatim>\<open>BaseException\<close> only (\<^verbatim>\<open>KeyboardInterrupt\<close>,
  \<^verbatim>\<open>SystemExit\<close>), which \<^verbatim>\<open>except Exception\<close> does not catch.
  The three library classes are imported from \<^verbatim>\<open>twocaptcha\<close> and are unrelated
  by inheritance.
\<close>

datatype exn_class =
  TimeoutException
| NetworkException
| ApiException
| OtherException string
| BaseOnly string

text \<open>An exception object: its class and its single constructor argument.\<close>

datatype exn = Exn exn_class string

fun exn_class_of :: "exn \<Rightarrow> exn_class" where
  "exn_class_of (Exn c m) = c"

fun exn_arg :: "exn \<Rightarrow> string" where
  "exn_arg (Exn c m) = m"

fun class_name :: "exn_class \<Rightarrow> string" where
  "class_name TimeoutException = ''TimeoutException''"
| "class_name NetworkException = ''NetworkException''"
| "class_name ApiException = ''ApiException''"
| "class_name (OtherException n) = n"
| "class_name (BaseOnly n) = n"

datatype pyval =
  PNone
| PBool bool
| PStr string
| PDict "(string \<times> string) list"
| PExn exn
| PTuple "pyval list"

text \<open>The outcome of a call: a value, or a raised exception.\<close>

datatype 'a res = Return 'a | Raise exn

subsection \<open>\<^verbatim>\<open>repr\<close>, \<^verbatim>\<open>str\<close> and truth values\<close>

definition hex_digit :: "nat \<Rightarrow> char" where
  "hex_digit n = ''0123456789abcdef'' ! (n mod 16)"

definition repr_char :: "char \<Rightarrow> char \<Rightarrow> string" where
  "repr_char q c =
     (if c = q \<or> c = CHR 0x5C then [CHR 0x5C, c]
      else if c = CHR 0x09 then [CHR 0x5C, CHR ''t'']
      else if c = CHR 0x0A then [CHR 0x5C, CHR ''n'']
      else if c = CHR 0x0D then [CHR 0x5C, CHR ''r'']
      else if (of_char c :: nat) < 32 \<or> 127 \<le> (of_char c :: nat)
        then [CHR 0x5C, CHR ''x'', hex_digit (of_char c div 16), hex_digit (of_char c)]
      else [c])"

text \<open>
  \<^verbatim>\<open>repr\<close> of a string: single quotes, unless the string has a single quote and no
  double quote.
\<close>

definition repr_str :: "string \<Rightarrow> string" where
  "repr_str s =
     (let q = (if CHR 0x27 \<in> set s \<and> CHR 0x22 \<notin> set s then CHR 0x22 else CHR 0x27)
      in [q] @ concat (map (repr_char q) s) @ [q])"

fun join_comma :: "string list \<Rightarrow> string" where
  "join_comma [] = []"
| "join_comma [x] = x"
| "join_comma (x # y # ys) = x @ '', '' @ join_comma (y # ys)"

text \<open>
  \<^verbatim>\<open>str(e)\<close> of an exception with one argument is the argument; \<^verbatim>\<open>KeyError\<close>
  shows the \<^verbatim>\<open>repr\<close> of it.
\<close>

definition exn_str :: "exn \<Rightarrow> string" where
  "exn_str e =
     (if exn_class_of e = OtherException ''KeyError'' then repr_str (exn_arg e)
      else exn_arg e)"

definition repr_exn :: "exn \<Rightarrow> string" where
  "repr_exn e = class_name (exn_class_of e) @ ''('' @ repr_str (exn_arg e) @ '')''"

definition repr_item :: "string \<times> string \<Rightarrow> string" where
  "repr_item kv = repr_str (fst kv) @ '': '' @ repr_str (snd kv)"

fun py_repr :: "pyval \<Rightarrow> string" where
  "py_repr PNone = ''None''"
| "py_repr (PBool b) = (if b then ''True'' else ''False'')"
| "py_repr (PStr s) = repr_str s"
| "py_repr (PDict d) = ''{'' @ join_comma (map repr_item d) @ ''}''"
| "py_repr (PExn e) = repr_exn e"
| "py_repr (PTuple vs) =
     (case vs of
        [v] \<Rightarrow> ''('' @ py_repr v @ '',)''
      | _ \<Rightarrow> ''('' @ join_comma (map py_repr vs) @ '')'')"

text \<open>\<^verbatim>\<open>str(v)\<close>, which is also what an f-string field \<^verbatim>\<open>{v}\<close> shows.\<close>

fun py_str :: "pyval \<Rightarrow> string" where
  "py_str (PStr s) = s"
| "py_str (PExn e) = exn_str e"
| "py_str v = py_repr v"

fun truthy :: "pyval \<Rightarrow> bool" where
  "truthy PNone = False"
| "truthy (PBool b) = b"
| "truthy (PStr s) = (s \<noteq> [])"
| "truthy (PDict d) = (d \<noteq> [])"
| "truthy (PExn e) = True"
| "truthy (PTuple vs) = (vs \<noteq> [])"

text \<open>
  \<^verbatim>\<open>a, b, c = v\<close>: a tuple of three unpacks to its components, a dictionary of three
  to its keys, a string of three to its characters; any other length is a
  \<^verbatim>\<open>ValueError\<close>, and a value that cannot be iterated is a \<^verbatim>\<open>TypeError\<close>.
\<close>

definition unpack_error :: "nat \<Rightarrow> exn" where
  "unpack_error n =
     Exn (OtherException ''ValueError'')
       (if n < 3 then ''not enough values to unpack (expected 3)''
        else ''too many values to unpack (expected 3)'')"

fun unpack3 :: "pyval \<Rightarrow> (pyval \<times> pyval \<times> pyval) res" where
  "unpack3 (PTuple vs) =
     (case vs of
        [a, b, c] \<Rightarrow> Return (a, b, c)
      | _ \<Rightarrow> Raise (unpack_error (length vs)))"
| "unpack3 (PDict d) =
     (case d of
        [a, b, c] \<Rightarrow> Return (PStr (fst a), PStr (fst b), PStr (fst c))
      | _ \<Rightarrow> Raise (unpack_error (length d)))"
| "unpack3 (PStr s) =
     (case s of
        [a, b, c] \<Rightarrow> Return (PStr [a], PStr [b], PStr [c])
      | _ \<Rightarrow> Raise (unpack_error (length s)))"
| "unpack3 v =
     Raise (Exn (OtherException ''TypeError'') ''cannot unpack non-iterable object'')"

text \<open>
  \<^verbatim>\<open>v["code"]\<close>: the entry of a dictionary, \<^verbatim>\<open>KeyError\<close> when it has none,
  \<^verbatim>\<open>TypeError\<close> on every other value of the model.
\<close>

fun getitem :: "pyval \<Rightarrow> string \<Rightarrow> pyval res" where
  "getitem (PDict d) k =
     (case map_of d k of
        Some v \<Rightarrow> Return (PStr v)
      | None \<Rightarrow> Raise (Exn (OtherException ''KeyError'') k))"
| "getitem v k =
     Raise (Exn (OtherException ''TypeError'') ''object is not subscriptable by a string'')"

text \<open>\<^verbatim>\<open>str.lower\<close> and \<^verbatim>\<open>str.upper\<close> on ASCII text: the 26 letters change case.\<close>

definition lower_char :: "char \<Rightarrow> char" where
  "lower_char c =
     (case map_of (zip ''ABCDEFGHIJKLMNOPQRSTUVWXYZ'' ''abcdefghijklmnopqrstuvwxyz'') c of
        Some l \<Rightarrow> l
      | None \<Rightarrow> c)"

definition upper_char :: "char \<Rightarrow> char" where
  "upper_char c =
     (case map_of (zip ''abcdefghijklmnopqrstuvwxyz'' ''ABCDEFGHIJKLMNOPQRSTUVWXYZ'') c of
        Some u \<Rightarrow> u
      | None \<Rightarrow> c)"

definition str_lower :: "string \<Rightarrow> string" where
  "str_lower s = map lower_char s"

definition str_upper :: "string \<Rightarrow> string" where
  "str_upper s = map upper_char s"

section \<open>The world outside the module\<close>

text \<open>
  The browser session, the console, the file system and the solving service are the
  module's collaborators. Their state is one record, threaded through every operation;
  a page is the list of its elements in document order, and a \<^verbatim>\<open>WebElement\<close> is the
  index of its element. Commands sent to the browser and requests sent to the solving
  service are appended to traces, so that a theorem can say what was sent.

  The file system is the content of its files together with what the operating system
  refuses: \<open>open_error p\<close> is the exception with which it refuses to create or empty
  the file \<open>p\<close> (\<^verbatim>\<open>FileNotFoundError\<close> when a directory of the path is missing,
  \<^verbatim>\<open>IsADirectoryError\<close>, \<^verbatim>\<open>PermissionError\<close>, ...), and
  \<open>rename_error src dst\<close> the one with which it refuses to move an existing file
  \<open>src\<close> to \<open>dst\<close>; \<open>None\<close> when it does not refuse.
\<close>

record element =
  attrs :: "(string \<times> string) list"
  interactable :: bool

datatype By = ID | CSS_SELECTOR | XPATH

datatype browser_cmd =
  SendKeys nat string
| ExecuteScript string "nat list"
| Refresh
| GetLog string

text \<open>
  The requests of the solving client: \<^verbatim>\<open>normal(file, caseSensitive, minLength,
  maxLength)\<close> with the content of the file when the request is made,
  \<^verbatim>\<open>recaptcha(sitekey, url)\<close> and \<^verbatim>\<open>turnstile(sitekey, url, action, data,
  pagedata, useragent)\<close>.
\<close>

datatype solver_request =
  Normal string "string option" int int int
| Recaptcha "string option" string
| Turnstile string string string string string string

text \<open>
  What the \<^verbatim>\<open>Log\<close> object received. The two timing messages carry a duration in
  real time, which the entry leaves out: it keeps whether the manual path wrote it and
  the upper-cased kind.
\<close>

datatype log_entry =
  Debug pyval
| Error pyval
| ErrorTraceback exn
| DebugTook bool string

record world =
  logged :: "log_entry list"
  stdout :: "string list"
  stdin :: "string list"
  files :: "string \<rightharpoonup> string"
  open_error :: "string \<Rightarrow> exn option"
  rename_error :: "string \<Rightarrow> string \<Rightarrow> exn option"
  dom :: "element list"
  current_url :: string
  console :: "string list"
  browser :: "browser_cmd list"
  requests :: "solver_request list"

text \<open>
  The solver object: the client of the solving service (which answers a request with a
  value or raises) and the configuration read by \<^verbatim>\<open>__init__\<close>;
  \<open>save_solved_captchas\<close> is the flag \<^verbatim>\<open>self.log.config["save_solved_captchas"]\<close>.
\<close>

record captcha =
  solver :: "solver_request \<Rightarrow> pyval res"
  enabled :: bool
  debug_enabled :: bool
  save_solved_captchas :: bool

text \<open>
  Functions of the standard library whose results the module passes on:
  \<^verbatim>\<open>base64.decodebytes\<close> (which raises \<^verbatim>\<open>binascii.Error\<close> on a malformed
  payload), and the text processing of \<^verbatim>\<open>get_captcha_params\<close> on one console
  message (\<^verbatim>\<open>unicode_escape\<close> decoding, the regular expression
  \<^verbatim>\<open>intercepted-params:({.*?})\<close> and \<^verbatim>\<open>json.loads\<close>): \<open>None\<close> when the
  expression does not match, otherwise the parsed parameters or the exception raised.
\<close>

record pylib =
  decodebytes :: "string \<Rightarrow> string res"
  intercepted :: "string \<Rightarrow> pyval res option"

subsection \<open>Logging\<close>

text \<open>
  Modelled from the spec: the class \<^verbatim>\<open>Log\<close> of \<^verbatim>\<open>src/utils/log.py\<close> is not
  among the sources. ``Debug-gated log lines'': \<^verbatim>\<open>debug_if(flag, msg)\<close> writes the
  message when the flag is set; \<^verbatim>\<open>error(msg)\<close> always writes.
\<close>

definition debug_if :: "bool \<Rightarrow> pyval \<Rightarrow> world \<Rightarrow> world" where
  "debug_if flag msg w = (if flag then w\<lparr>logged := logged w @ [Debug msg]\<rparr> else w)"

definition log_entry_if :: "bool \<Rightarrow> log_entry \<Rightarrow> world \<Rightarrow> world" where
  "log_entry_if flag e w = (if flag then w\<lparr>logged := logged w @ [e]\<rparr> else w)"

definition log_error :: "log_entry \<Rightarrow> world \<Rightarrow> world" where
  "log_error e w = w\<lparr>logged := logged w @ [e]\<rparr>"

subsection \<open>Console\<close>

definition print :: "string \<Rightarrow> world \<Rightarrow> world" where
  "print s w = w\<lparr>stdout := stdout w @ [s]\<rparr>"

text \<open>
  \<^verbatim>\<open>input(prompt)\<close> writes the prompt and blocks for a line of standard input; at
  the end of the input it raises \<^verbatim>\<open>EOFError\<close>.
\<close>

definition input :: "string \<Rightarrow> world \<Rightarrow> string res \<times> world" where
  "input prompt w =
     (case stdin w of
        [] \<Rightarrow> (Raise (Exn (OtherException ''EOFError'') ''EOF when reading a line''),
               print prompt w)
      | l # ls \<Rightarrow> (Return l, (print prompt w)\<lparr>stdin := ls\<rparr>))"

subsection \<open>Browser session\<close>

fun find_first :: "('a \<Rightarrow> bool) \<Rightarrow> 'a list \<Rightarrow> nat option" where
  "find_first P [] = None"
| "find_first P (x # xs) =
     (if P x then Some 0 else map_option Suc (find_first P xs))"

text \<open>
  Which elements a locator selects. The module locates by \<^verbatim>\<open>id\<close> and by the
  attribute selector \<^verbatim>\<open>[data-sitekey]\<close>; a selector of the form \<^verbatim>\<open>[name]\<close>
  selects the elements that carry the attribute, and no other selector or XPath
  expression is interpreted.
\<close>

definition selects :: "By \<Rightarrow> string \<Rightarrow> element \<Rightarrow> bool" where
  "selects b v e =
     (case b of
        ID \<Rightarrow> map_of (attrs e) ''id'' = Some v
      | CSS_SELECTOR \<Rightarrow>
          (case v of
             [] \<Rightarrow> False
           | c # rest \<Rightarrow>
               c = CHR ''['' \<and> rest \<noteq> [] \<and> last rest = CHR '']''
               \<and> map_of (attrs e) (butlast rest) \<noteq> None)
      | XPATH \<Rightarrow> False)"

text \<open>
  Modelled from the spec: \<^verbatim>\<open>selenium_common.is_elem_present\<close> of
  \<^verbatim>\<open>src/utils/common\<close> is not among the sources. ``Find-element-by-id/css/xpath
  (nullable result)'': the first element the locator selects, or nothing.
\<close>

definition is_elem_present :: "By \<Rightarrow> string \<Rightarrow> world \<Rightarrow> nat option" where
  "is_elem_present b v w = find_first (selects b v) (dom w)"

text \<open>\<^verbatim>\<open>driver.find_element\<close> raises when the page has no such element.\<close>

definition find_element :: "By \<Rightarrow> string \<Rightarrow> world \<Rightarrow> nat res" where
  "find_element b v w =
     (case find_first (selects b v) (dom w) of
        None \<Rightarrow> Raise (Exn (OtherException ''NoSuchElementException'') v)
      | Some h \<Rightarrow> Return h)"

text \<open>\<^verbatim>\<open>element.get_attribute(name)\<close> is \<^verbatim>\<open>None\<close> for an attribute the element lacks.\<close>

definition get_attribute :: "nat \<Rightarrow> string \<Rightarrow> world \<Rightarrow> string option" where
  "get_attribute h name w =
     (if h < length (dom w) then map_of (attrs (dom w ! h)) name else None)"

text \<open>
  \<^verbatim>\<open>element.send_keys(text)\<close> types into the element; the browser refuses keys for
  an element that cannot be interacted with.
\<close>

definition send_keys :: "nat \<Rightarrow> string \<Rightarrow> world \<Rightarrow> pyval res \<times> world" where
  "send_keys h text w =
     (if h < length (dom w) \<and> interactable (dom w ! h)
      then (Return PNone, w\<lparr>browser := browser w @ [SendKeys h text]\<rparr>)
      else (Raise (Exn (OtherException ''ElementNotInteractableException'') text), w))"

text \<open>\<^verbatim>\<open>driver.execute_script(script, *args)\<close>: the script is sent, not interpreted.\<close>

definition execute_script :: "string \<Rightarrow> nat list \<Rightarrow> world \<Rightarrow> world" where
  "execute_script script args w = w\<lparr>browser := browser w @ [ExecuteScript script args]\<rparr>"

definition refresh :: "world \<Rightarrow> world" where
  "refresh w = w\<lparr>browser := browser w @ [Refresh]\<rparr>"

text \<open>\<^verbatim>\<open>driver.get_log("browser")\<close> hands over the console messages and clears them.\<close>

definition get_log :: "string \<Rightarrow> world \<Rightarrow> string list \<times> world" where
  "get_log kind w = (console w, w\<lparr>console := [], browser := browser w @ [GetLog kind]\<rparr>)"

subsection \<open>Solving service\<close>

definition call_solver :: "captcha \<Rightarrow> solver_request \<Rightarrow> world \<Rightarrow> pyval res \<times> world" where
  "call_solver self req w = (solver self req, w\<lparr>requests := requests w @ [req]\<rparr>)"

subsection \<open>File system\<close>

text \<open>\<^verbatim>\<open>os.path.join\<close> is the POSIX one, on two components.\<close>

definition path_join :: "string \<Rightarrow> string \<Rightarrow> string" where
  "path_join a b =
     (if b \<noteq> [] \<and> hd b = CHR ''/'' then b
      else if a = [] \<or> last a = CHR ''/'' then a @ b
      else a @ ''/'' @ b)"

text \<open>
  \<^verbatim>\<open>open(path, "wb")\<close> creates the file or empties it, unless the operating system
  refuses; \<^verbatim>\<open>write\<close> then stores the content.
\<close>

definition open_wb :: "string \<Rightarrow> world \<Rightarrow> unit res \<times> world" where
  "open_wb path w =
     (case open_error w path of
        Some e \<Rightarrow> (Raise e, w)
      | None \<Rightarrow> (Return (), w\<lparr>files := (files w)(path \<mapsto> [])\<rparr>))"

definition write_file :: "string \<Rightarrow> string \<Rightarrow> world \<Rightarrow> world" where
  "write_file path content w = w\<lparr>files := (files w)(path \<mapsto> content)\<rparr>"

text \<open>
  \<^verbatim>\<open>os.rename(src, dst)\<close> raises \<^verbatim>\<open>FileNotFoundError\<close> when \<open>src\<close> does not
  exist, and whatever the operating system refuses the move with (a missing directory
  of \<open>dst\<close>, for one); otherwise \<open>dst\<close> takes the content and \<open>src\<close> is gone.
\<close>

definition os_rename :: "string \<Rightarrow> string \<Rightarrow> world \<Rightarrow> unit res \<times> world" where
  "os_rename src dst w =
     (case files w src of
        None \<Rightarrow> (Raise (Exn (OtherException ''FileNotFoundError'') src), w)
      | Some content \<Rightarrow>
          (case rename_error w src dst of
             Some e \<Rightarrow> (Raise e, w)
           | None \<Rightarrow>
               (Return (), w\<lparr>files := ((files w)(src := None))(dst \<mapsto> content)\<rparr>)))"

text \<open>
  Modelled from the spec: \<^verbatim>\<open>utils.remove_files\<close> of \<^verbatim>\<open>src/utils/common\<close> is
  not among the sources. ``Otherwise delete the temp file'': every listed path is
  deleted.
\<close>

definition remove_files :: "string list \<Rightarrow> world \<Rightarrow> world" where
  "remove_files paths w = w\<lparr>files := fold (\<lambda>p f. f(p := None)) paths (files w)\<rparr>"

section \<open>The class \<^verbatim>\<open>Captcha\<close>\<close>

subsection \<open>\<^verbatim>\<open>_solve_captcha\<close>: the unified wrapper\<close>

text \<open>
  The wrapper's \<^verbatim>\<open>finally\<close> block logs the current value of \<^verbatim>\<open>result\<close> and
  returns it. A \<^verbatim>\<open>return\<close> inside \<^verbatim>\<open>finally\<close> discards an exception that
  is still in flight.
\<close>

definition finally_return :: "bool \<Rightarrow> pyval \<Rightarrow> world \<Rightarrow> pyval res \<times> world" where
  "finally_return debug result w = (Return result, debug_if debug result w)"

text \<open>
  \<^verbatim>\<open>_solve_captcha(solve_callback, result_callback, debug_enabled)\<close> (an Isabelle
  name cannot start with an underscore). The \<^verbatim>\<open>except\<close> clauses are tried in the
  order of the source; the \<^verbatim>\<open>else\<close> clause runs \<^verbatim>\<open>result_callback\<close> outside
  the handlers, so an exception of the callback, like one of a class derived from
  \<^verbatim>\<open>BaseException\<close> only, reaches \<^verbatim>\<open>finally\<close> with \<^verbatim>\<open>result\<close> as it
  stood.
\<close>

definition solve_captcha ::
  "(world \<Rightarrow> pyval res \<times> world) \<Rightarrow> (pyval \<Rightarrow> world \<Rightarrow> pyval res \<times> world) \<Rightarrow> bool
     \<Rightarrow> world \<Rightarrow> pyval res \<times> world" where
  "solve_captcha solve_callback result_callback debug w =
     (case solve_callback w of
        (Return result, w1) \<Rightarrow>
          (case result_callback result
                  (debug_if debug (PStr ''Received 2Captcha response...'') w1) of
             (Return _, w2) \<Rightarrow>
               finally_return debug (PTuple [PBool True, PStr ''SOLVED'', result]) w2
           | (Raise _, w2) \<Rightarrow> finally_return debug result w2)
      | (Raise e, w1) \<Rightarrow>
          (case exn_class_of e of
             TimeoutException \<Rightarrow>
               finally_return debug (PTuple [PBool False, PStr ''TIMEOUT'', PExn e])
                 (debug_if debug (PStr (''2Captcha API has timed-out! : '' @ exn_str e)) w1)
           | NetworkException \<Rightarrow>
               finally_return debug (PTuple [PBool False, PStr ''NETWORK_ERROR'', PExn e])
                 (debug_if debug
                    (PStr (''2Captcha API has encountered a network error! : '' @ exn_str e)) w1)
           | ApiException \<Rightarrow>
               finally_return debug (PTuple [PBool False, PStr ''API_ERROR'', PExn e])
                 (debug_if debug
                    (PStr (''2Captcha API has encountered an API error : '' @ exn_str e)) w1)
           | OtherException _ \<Rightarrow>
               finally_return debug (PTuple [PBool False, PStr ''UNKNOWN_ERROR'', PExn e])
                 (log_error (ErrorTraceback e) (log_error (Error (PExn e)) w1))
           | BaseOnly _ \<Rightarrow> finally_return debug PNone w1))"

subsection \<open>The image CAPTCHA\<close>

definition captcha_img_id :: string where
  "captcha_img_id = ''ctl00_ContentPlaceHolder1_CaptchaImg''"

definition captcha_input_id :: string where
  "captcha_input_id = ''ctl00_ContentPlaceHolder1_txtVerificationCode''"

text \<open>
  \<^verbatim>\<open>save_captcha(driver, captcha_image_filepath)\<close> returns the input element, or
  \<^verbatim>\<open>False\<close> (here \<open>None\<close>) when the image or the input is missing. Slicing the
  \<^verbatim>\<open>src\<close> attribute raises \<^verbatim>\<open>TypeError\<close> when the image has none;
  \<^verbatim>\<open>str.encode\<close> changes nothing on ASCII text. The file is opened before the
  payload is decoded: when the file cannot be opened, \<^verbatim>\<open>open\<close> raises and nothing
  is written, and a payload that does not decode leaves an empty file.
\<close>

definition save_captcha :: "pylib \<Rightarrow> string \<Rightarrow> world \<Rightarrow> nat option res \<times> world" where
  "save_captcha lib captcha_image_filepath w =
     (case (is_elem_present ID captcha_img_id w, is_elem_present ID captcha_input_id w) of
        (Some captcha_element, Some captcha_input) \<Rightarrow>
          (case get_attribute captcha_element ''src'' w of
             None \<Rightarrow>
               (Raise (Exn (OtherException ''TypeError'')
                         ''object is not subscriptable''), w)
           | Some src \<Rightarrow>
               (case open_wb captcha_image_filepath w of
                  (Raise e, w1) \<Rightarrow> (Raise e, w1)
                | (Return _, w1) \<Rightarrow>
                    (case decodebytes lib (drop 23 src) of
                       Raise e \<Rightarrow> (Raise e, w1)
                     | Return payload \<Rightarrow>
                         (Return (Some captcha_input),
                          write_file captcha_image_filepath payload w1))))
      | _ \<Rightarrow> (Return None, w))"

definition temp_path :: string where
  "temp_path = path_join ''temp'' ''normal_captcha.jpeg''"

definition solved_path :: "string \<Rightarrow> string" where
  "solved_path code = path_join ''solved_captchas'' (code @ ''.jpeg'')"

text \<open>The two callbacks that \<^verbatim>\<open>normal_captcha\<close> hands to the wrapper.\<close>

definition normal_solve :: "captcha \<Rightarrow> world \<Rightarrow> pyval res \<times> world" where
  "normal_solve self w = call_solver self (Normal temp_path (files w temp_path) 1 6 6) w"

definition normal_apply :: "nat \<Rightarrow> pyval \<Rightarrow> world \<Rightarrow> pyval res \<times> world" where
  "normal_apply captcha_input result w =
     (case getitem result ''code'' of
        Raise e \<Rightarrow> (Raise e, w)
      | Return code \<Rightarrow> send_keys captcha_input (py_str code) w)"

definition normal_captcha ::
  "pylib \<Rightarrow> captcha \<Rightarrow> string \<Rightarrow> bool \<Rightarrow> world \<Rightarrow> pyval res \<times> world" where
  "normal_captcha lib self page_url debug w =
     (case save_captcha lib temp_path w of
        (Raise e, w1) \<Rightarrow> (Raise e, w1)
      | (Return None, w1) \<Rightarrow>
          (Return (PTuple [PBool False, PStr ''NO CAPTCHA FOUND IN'', PStr page_url]), w1)
      | (Return (Some captcha_input), w1) \<Rightarrow>
          (case solve_captcha (normal_solve self) (normal_apply captcha_input) debug w1 of
             (Raise e, w2) \<Rightarrow> (Raise e, w2)
           | (Return r, w2) \<Rightarrow>
               (case unpack3 r of
                  Raise e \<Rightarrow> (Raise e, w2)
                | Return (success, status, msg) \<Rightarrow>
                    if save_solved_captchas self \<and> truthy success \<and> status = PStr ''SOLVED''
                    then
                      (case getitem msg ''code'' of
                         Raise e \<Rightarrow> (Raise e, w2)
                       | Return code \<Rightarrow>
                           (case os_rename temp_path (solved_path (py_str code)) w2 of
                              (Raise e, w3) \<Rightarrow> (Raise e, w3)
                            | (Return _, w3) \<Rightarrow> (Return (PTuple [success, status, msg]), w3)))
                    else (Return (PTuple [success, status, msg]),
                          remove_files [temp_path] w2))))"

subsection \<open>reCAPTCHA v2\<close>

text \<open>
  The inner function \<^verbatim>\<open>submit_captcha_response\<close>: the script is
  \<^verbatim>\<open>arguments[0].value="<code>"\<close>, with the response element as its argument.
\<close>

definition response_script :: "string \<Rightarrow> string" where
  "response_script code = ''arguments[0].value='' @ [CHR 0x22] @ code @ [CHR 0x22]"

definition submit_captcha_response :: "pyval \<Rightarrow> world \<Rightarrow> pyval res \<times> world" where
  "submit_captcha_response result w =
     (case find_element ID ''g-recaptcha-response'' w of
        Raise e \<Rightarrow> (Raise e, w)
      | Return recaptcha_repsonse_element \<Rightarrow>
          (case getitem result ''code'' of
             Raise e \<Rightarrow> (Raise e, w)
           | Return code \<Rightarrow>
               (Return PNone,
                execute_script (response_script (py_str code)) [recaptcha_repsonse_element] w)))"

definition recaptcha_v2 :: "captcha \<Rightarrow> string \<Rightarrow> bool \<Rightarrow> world \<Rightarrow> pyval res \<times> world" where
  "recaptcha_v2 self page_url debug w =
     (case is_elem_present CSS_SELECTOR ''[data-sitekey]'' w of
        Some site_key_element \<Rightarrow>
          solve_captcha
            (call_solver self
               (Recaptcha (get_attribute site_key_element ''data-sitekey'' w) page_url))
            submit_captcha_response debug w
      | None \<Rightarrow>
          (Return (PTuple [PBool False, PStr ''NO RECAPTCHA_V2 FOUND IN'', PStr page_url]), w))"

subsection \<open>Cloudflare Turnstile\<close>

fun str_contains :: "string \<Rightarrow> string \<Rightarrow> bool" where
  "str_contains sub [] = (sub = [])"
| "str_contains sub (c # cs) = (take (length sub) (c # cs) = sub \<or> str_contains sub cs)"

text \<open>
  The loop of \<^verbatim>\<open>get_captcha_params\<close> over the console messages: the first
  message that holds the tag and matches the expression gives the parameters.
\<close>

fun scan_logs :: "pylib \<Rightarrow> string list \<Rightarrow> pyval res" where
  "scan_logs lib [] = Return PNone"
| "scan_logs lib (m # ms) =
     (if str_contains ''intercepted-params:'' m
      then (case intercepted lib m of
              None \<Rightarrow> scan_logs lib ms
            | Some (Raise e) \<Rightarrow> Raise e
            | Some (Return params) \<Rightarrow> Return params)
      else scan_logs lib ms)"

text \<open>
  The injected script is sent to the browser and not interpreted; the constant stands
  for the literal of the source (a polling hook on \<^verbatim>\<open>window.turnstile.render\<close>
  that logs the widget's parameters under the tag \<^verbatim>\<open>intercepted-params:\<close>). The
  pause of five seconds is real time and has no counterpart here.
\<close>

definition intercept_script :: string where
  "intercept_script = ''window.turnstile.render = (a,b) => { console.log(intercepted-params) }''"

definition get_captcha_params :: "pylib \<Rightarrow> world \<Rightarrow> pyval res \<times> world" where
  "get_captcha_params lib w =
     (case get_log ''browser'' (execute_script intercept_script [] (refresh w)) of
        (logs, w1) \<Rightarrow>
          (case scan_logs lib logs of
             Raise e \<Rightarrow> (Raise e, w1)
           | Return params \<Rightarrow> (Return params, print ''Parameters received'' w1)))"

text \<open>The keyword arguments of \<^verbatim>\<open>self.solver.turnstile\<close>, read in the order written.\<close>

definition turnstile_request :: "pyval \<Rightarrow> solver_request res" where
  "turnstile_request params =
     (case getitem params ''sitekey'' of Raise e \<Rightarrow> Raise e | Return sitekey \<Rightarrow>
     (case getitem params ''pageurl'' of Raise e \<Rightarrow> Raise e | Return pageurl \<Rightarrow>
     (case getitem params ''action'' of Raise e \<Rightarrow> Raise e | Return action \<Rightarrow>
     (case getitem params ''data'' of Raise e \<Rightarrow> Raise e | Return data \<Rightarrow>
     (case getitem params ''pagedata'' of Raise e \<Rightarrow> Raise e | Return pagedata \<Rightarrow>
     (case getitem params ''userAgent'' of Raise e \<Rightarrow> Raise e | Return useragent \<Rightarrow>
        Return (Turnstile (py_str sitekey) (py_str pageurl) (py_str action) (py_str data)
                  (py_str pagedata) (py_str useragent))))))))"

text \<open>The handler \<^verbatim>\<open>except Exception\<close> of \<^verbatim>\<open>cf_solver_captcha\<close>.\<close>

definition cf_handler :: "exn \<Rightarrow> world \<Rightarrow> pyval res \<times> world" where
  "cf_handler e w =
     (case exn_class_of e of
        BaseOnly _ \<Rightarrow> (Raise e, w)
      | _ \<Rightarrow> (Return PNone, print (''An error occurred: '' @ exn_str e) w))"

definition cf_solver_captcha :: "captcha \<Rightarrow> pyval \<Rightarrow> bool \<Rightarrow> world \<Rightarrow> pyval res \<times> world" where
  "cf_solver_captcha self params debug w =
     (case turnstile_request params of
        Raise e \<Rightarrow> cf_handler e w
      | Return req \<Rightarrow>
          (case call_solver self req w of
             (Raise e, w1) \<Rightarrow> cf_handler e w1
           | (Return result, w1) \<Rightarrow>
               (case getitem result ''code'' of
                  Raise e \<Rightarrow> cf_handler e (debug_if debug (PStr ''Captcha solved'') w1)
                | Return code \<Rightarrow> (Return code, debug_if debug (PStr ''Captcha solved'') w1))))"

definition send_token_callback :: "string \<Rightarrow> world \<Rightarrow> world" where
  "send_token_callback token w =
     print ''The token is sent to the callback function''
       (execute_script (''cfCallback('' @ [CHR 0x27] @ token @ [CHR 0x27] @ '')'') [] w)"

text \<open>
  The names an instance of \<^verbatim>\<open>Captcha\<close> answers to: the four attributes set by
  \<^verbatim>\<open>__init__\<close> and the methods of the class body. (The names every object has are
  left out.) Looking up any other name raises \<^verbatim>\<open>AttributeError\<close>.
\<close>

definition Captcha_attributes :: "string list" where
  "Captcha_attributes =
     [''solver'', ''log'', ''enabled'', ''debug_enabled'',
      ''__init__'', ''_solve_captcha'', ''save_captcha'', ''normal_captcha'',
      ''recaptcha_v2'', ''get_captcha_params'', ''cf_solver_captcha'',
      ''send_token_callback'', ''cf_final_message'', ''cloudflare_turnstile'', ''solve'']"

definition getattr_Captcha :: "string \<Rightarrow> unit res" where
  "getattr_Captcha name =
     (if name \<in> set Captcha_attributes then Return ()
      else Raise (Exn (OtherException ''AttributeError'')
                    (''Captcha object has no attribute '' @ name)))"

text \<open>
  \<^verbatim>\<open>cloudflare_turnstile(driver, debug_enabled)\<close>. Its first line looks up
  \<^verbatim>\<open>self.get_capture_params\<close>. What the body would do with a method found under
  that name is modelled with the extraction method of the class,
  \<^verbatim>\<open>get_captcha_params\<close>. Line 255 calls \<^verbatim>\<open>send_token_callback\<close> with one
  argument where the method takes two, which is a \<^verbatim>\<open>TypeError\<close>; the lines after
  it (\<^verbatim>\<open>cf_final_message\<close>) cannot run.
\<close>

definition cloudflare_turnstile ::
  "pylib \<Rightarrow> captcha \<Rightarrow> bool \<Rightarrow> world \<Rightarrow> pyval res \<times> world" where
  "cloudflare_turnstile lib self debug w =
     (case getattr_Captcha ''get_capture_params'' of
        Raise e \<Rightarrow> (Raise e, w)
      | Return _ \<Rightarrow>
          (case get_captcha_params lib w of
             (Raise e, w1) \<Rightarrow> (Raise e, w1)
           | (Return params, w1) \<Rightarrow>
               if truthy params then
                 (case cf_solver_captcha self params debug w1 of
                    (Raise e, w2) \<Rightarrow> (Raise e, w2)
                  | (Return token, w2) \<Rightarrow>
                      if truthy token then
                        (Raise (Exn (OtherException ''TypeError'')
                                  ''send_token_callback() missing 1 required positional argument''),
                         w2)
                      else (Return PNone, print ''Failed to solve Cloudflare turnstile'' w2))
               else (Return PNone,
                     print ''Cloudflare turnstile: failed to intercept parameters'' w1)))"

subsection \<open>\<^verbatim>\<open>solve\<close>\<close>

text \<open>\<^verbatim>\<open>x or default\<close> for an optional string: \<^verbatim>\<open>None\<close> and the empty string are false.\<close>

definition or_default :: "string option \<Rightarrow> string \<Rightarrow> string" where
  "or_default x d = (case x of None \<Rightarrow> d | Some s \<Rightarrow> if s = [] then d else s)"

text \<open>\<^verbatim>\<open>success, status, msg = handler(...)\<close>\<close>

definition unpacked ::
  "pyval res \<times> world \<Rightarrow> (pyval \<times> pyval \<times> pyval) res \<times> world" where
  "unpacked rw =
     (case rw of
        (Raise e, w) \<Rightarrow> (Raise e, w)
      | (Return v, w) \<Rightarrow> (unpack3 v, w))"

text \<open>The dispatch of lines 281 to 290: two kinds are wired, any other keeps the defaults.\<close>

definition dispatch ::
  "pylib \<Rightarrow> captcha \<Rightarrow> string \<Rightarrow> string \<Rightarrow> bool \<Rightarrow> world
     \<Rightarrow> (pyval \<times> pyval \<times> pyval) res \<times> world" where
  "dispatch lib self captcha_type page_url debug w =
     (if str_lower captcha_type = ''recaptcha_v2''
        then unpacked (recaptcha_v2 self page_url debug w)
      else if str_lower captcha_type = ''normal_captcha''
        then unpacked (normal_captcha lib self page_url debug w)
      else (Return (PBool False, PStr [], PStr []), w))"

text \<open>The end of the manual path: the timing line and the fixed result.\<close>

definition manual_done :: "bool \<Rightarrow> string \<Rightarrow> world \<Rightarrow> (pyval \<times> string) res \<times> world" where
  "manual_done debug captcha_type w =
     (Return (PBool True, ''Manually solved CAPTCHA''),
      log_entry_if debug (DebugTook True (str_upper captcha_type)) w)"

text \<open>The f-string field \<^verbatim>\<open>{captcha_input.get_attribute('value')}\<close>.\<close>

definition str_of_attribute :: "string option \<Rightarrow> string" where
  "str_of_attribute a = (case a of None \<Rightarrow> ''None'' | Some s \<Rightarrow> s)"

text \<open>
  \<^verbatim>\<open>solve(driver, captcha_type=None, page_url=None, force_enable=False,
  force_debug=False)\<close>; an omitted argument is \<open>None\<close>.
\<close>

definition solve ::
  "pylib \<Rightarrow> captcha \<Rightarrow> string option \<Rightarrow> string option \<Rightarrow> bool \<Rightarrow> bool \<Rightarrow> world
     \<Rightarrow> (pyval \<times> string) res \<times> world" where
  "solve lib self captcha_type0 page_url0 force_enable force_debug w =
     (let page_url = or_default page_url0 (current_url w);
          captcha_type = or_default captcha_type0 ''recaptcha_v2'';
          debug = (debug_enabled self \<or> force_debug)
      in if enabled self \<or> force_enable then
           (case dispatch lib self captcha_type page_url debug
                   (debug_if debug
                      (PStr (''Solving '' @ str_upper captcha_type @ '' for: '' @ page_url)) w) of
              (Raise e, w1) \<Rightarrow> (Raise e, w1)
            | (Return (success, status, msg), w1) \<Rightarrow>
                (Return (success, py_str status @ '': '' @ py_str msg),
                 if truthy success
                 then log_entry_if debug (DebugTook False (str_upper captcha_type)) w1
                 else w1))
         else
           (case input ''Press enter to proceed: ''
                   (debug_if debug (PStr (''Manually solving CAPTCHA for: '' @ page_url)) w) of
              (Raise e, w1) \<Rightarrow> (Raise e, w1)
            | (Return _, w1) \<Rightarrow>
                if save_solved_captchas self \<and> str_lower captcha_type = ''normal_captcha''
                then
                  (case is_elem_present ID captcha_input_id w1 of
                     None \<Rightarrow> manual_done debug captcha_type w1
                   | Some captcha_input \<Rightarrow>
                       (case save_captcha lib
                               (solved_path (str_of_attribute
                                  (get_attribute captcha_input ''value'' w1))) w1 of
                          (Raise e, w2) \<Rightarrow> (Raise e, w2)
                        | (Return _, w2) \<Rightarrow> manual_done debug captcha_type w2))
                else manual_done debug captcha_type w1))"

section \<open>Example inputs\<close>

text \<open>Concrete worlds, pages and services, on which the theorems below are run.\<close>

text \<open>
  \<^verbatim>\<open>os.path.dirname\<close>: the path up to its last slash, without trailing slashes
  (unless it is slashes only).
\<close>

definition dirname :: "string \<Rightarrow> string" where
  "dirname p =
     (let head = rev (dropWhile (\<lambda>c. c \<noteq> CHR ''/'') (rev p))
      in if head \<noteq> [] \<and> filter (\<lambda>c. c \<noteq> CHR ''/'') head \<noteq> []
         then rev (dropWhile (\<lambda>c. c = CHR ''/'') (rev head))
         else head)"

text \<open>
  A file system in which exactly the listed directories (and the working directory)
  exist: creating a file in any other directory is refused with
  \<^verbatim>\<open>FileNotFoundError\<close>.
\<close>

definition missing_directory :: "string list \<Rightarrow> string \<Rightarrow> exn option" where
  "missing_directory ds p =
     (if dirname p = [] \<or> dirname p \<in> set ds then None
      else Some (Exn (OtherException ''FileNotFoundError'') p))"

definition world0 :: world where
  "world0 =
     \<lparr>logged = [], stdout = [], stdin = [], files = Map.empty,
      open_error = missing_directory [''temp'', ''solved_captchas''],
      rename_error = (\<lambda>src. missing_directory [''temp'', ''solved_captchas'']),
      dom = [],
      current_url = ''https://example.org/login'', console = [], browser = [],
      requests = []\<rparr>"

definition three_zero_bytes :: string where
  "three_zero_bytes = [CHR 0x00, CHR 0x00, CHR 0x00]"

text \<open>A library whose decoder knows the payload \<^verbatim>\<open>AAAA\<close> (three zero bytes).\<close>

definition lib0 :: pylib where
  "lib0 =
     \<lparr>decodebytes =
        (\<lambda>s. if s = ''AAAA'' then Return three_zero_bytes
             else Raise (Exn (OtherException ''binascii.Error'') ''Incorrect padding'')),
      intercepted = (\<lambda>m. None)\<rparr>"

text \<open>The page of the image CAPTCHA: the image with its data URI, and the text input.\<close>

definition img_el :: element where
  "img_el =
     \<lparr>attrs = [(''id'', captcha_img_id), (''src'', ''data:image/jpeg;base64,AAAA'')],
      interactable = True\<rparr>"

definition input_el :: element where
  "input_el = \<lparr>attrs = [(''id'', captcha_input_id), (''value'', [])], interactable = True\<rparr>"

definition image_page :: world where
  "image_page = world0\<lparr>dom := [img_el, input_el]\<rparr>"

text \<open>A solver object whose service answers every request with the code \<^verbatim>\<open>AB12CD\<close>.\<close>

definition answer0 :: "(string \<times> string) list" where
  "answer0 = [(''captchaId'', ''7''), (''code'', ''AB12CD'')]"

definition self0 :: captcha where
  "self0 =
     \<lparr>solver = (\<lambda>req. Return (PDict answer0)),
      enabled = True, debug_enabled = False, save_solved_captchas = True\<rparr>"

text \<open>
  The page of a reCAPTCHA: the widget's element with the site key, and the hidden
  response field.
\<close>

definition sitekey_el :: element where
  "sitekey_el =
     \<lparr>attrs = [(''class'', ''g-recaptcha''), (''data-sitekey'', ''6Lc_site'')],
      interactable = True\<rparr>"

definition response_el :: element where
  "response_el = \<lparr>attrs = [(''id'', ''g-recaptcha-response'')], interactable = False\<rparr>"

definition recaptcha_page :: world where
  "recaptcha_page = world0\<lparr>dom := [sitekey_el, response_el]\<rparr>"

text \<open>The same page with an input that is disabled, which the browser does not type into.\<close>

definition locked_input_el :: element where
  "locked_input_el =
     \<lparr>attrs = [(''id'', captcha_input_id), (''disabled'', ''true'')], interactable = False\<rparr>"

definition locked_page :: world where
  "locked_page = world0\<lparr>dom := [img_el, locked_input_el]\<rparr>"

text \<open>
  Pages for the manual path: the visitor has typed \<^verbatim>\<open>AB12CD\<close> and a line of standard
  input is waiting. On the first page the image has no \<^verbatim>\<open>src\<close> attribute.
\<close>

definition no_src_img_el :: element where
  "no_src_img_el = \<lparr>attrs = [(''id'', captcha_img_id)], interactable = True\<rparr>"

definition typed_input_el :: element where
  "typed_input_el =
     \<lparr>attrs = [(''id'', captcha_input_id), (''value'', ''AB12CD'')], interactable = True\<rparr>"

definition manual_self :: captcha where
  "manual_self = self0\<lparr>enabled := False\<rparr>"

definition no_src_page :: world where
  "no_src_page = world0\<lparr>dom := [no_src_img_el, typed_input_el], stdin := [[]]\<rparr>"

definition manual_page :: world where
  "manual_page = world0\<lparr>dom := [img_el, typed_input_el], stdin := [[]]\<rparr>"

text \<open>The same manual page, where the visitor typed \<^verbatim>\<open>a/b\<close>.\<close>

definition slash_input_el :: element where
  "slash_input_el =
     \<lparr>attrs = [(''id'', captcha_input_id), (''value'', ''a/b'')], interactable = True\<rparr>"

definition slash_page :: world where
  "slash_page = world0\<lparr>dom := [img_el, slash_input_el], stdin := [[]]\<rparr>"

text \<open>A solver object whose service answers a reCAPTCHA with a token.\<close>

definition token_answer :: "(string \<times> string) list" where
  "token_answer = [(''captchaId'', ''8''), (''code'', ''03AGdBq24_tok-en'')]"

definition token_self :: captcha where
  "token_self = self0\<lparr>solver := (\<lambda>req. Return (PDict token_answer))\<rparr>"

section \<open>Properties of the wrapper\<close>

lemma solve_captcha_raise:
  assumes "solve_callback w = (Raise e, w1)"
  shows "solve_captcha solve_callback result_callback debug w =
     (case exn_class_of e of
        TimeoutException \<Rightarrow>
          finally_return debug (PTuple [PBool False, PStr ''TIMEOUT'', PExn e])
            (debug_if debug (PStr (''2Captcha API has timed-out! : '' @ exn_str e)) w1)
      | NetworkException \<Rightarrow>
          finally_return debug (PTuple [PBool False, PStr ''NETWORK_ERROR'', PExn e])
            (debug_if debug
               (PStr (''2Captcha API has encountered a network error! : '' @ exn_str e)) w1)
      | ApiException \<Rightarrow>
          finally_return debug (PTuple [PBool False, PStr ''API_ERROR'', PExn e])
            (debug_if debug
               (PStr (''2Captcha API has encountered an API error : '' @ exn_str e)) w1)
      | OtherException _ \<Rightarrow>
          finally_return debug (PTuple [PBool False, PStr ''UNKNOWN_ERROR'', PExn e])
            (log_error (ErrorTraceback e) (log_error (Error (PExn e)) w1))
      | BaseOnly _ \<Rightarrow> finally_return debug PNone w1)"
  using assms by (simp add: solve_captcha_def)

lemma solve_captcha_solved:
  assumes "solve_callback w = (Return result, w1)"
    and "result_callback result (debug_if debug (PStr ''Received 2Captcha response...'') w1)
           = (Return u, w2)"
  shows "solve_captcha solve_callback result_callback debug w =
           finally_return debug (PTuple [PBool True, PStr ''SOLVED'', result]) w2"
  using assms by (simp add: solve_captcha_def)

lemma solve_captcha_apply_raise:
  assumes "solve_callback w = (Return result, w1)"
    and "result_callback result (debug_if debug (PStr ''Received 2Captcha response...'') w1)
           = (Raise e, w2)"
  shows "solve_captcha solve_callback result_callback debug w = finally_return debug result w2"
  using assms by (simp add: solve_captcha_def)

lemma solve_captcha_returns:
  "\<exists>v w'. solve_captcha solve_callback result_callback debug w = (Return v, w')"
  by (simp add: solve_captcha_def finally_return_def
      split: prod.split res.split exn_class.split)

lemma pyval_not_in_itself: "v \<noteq> PTuple [a, b, v]"
proof
  assume "v = PTuple [a, b, v]"
  then have "size v = size (PTuple [a, b, v])" by simp
  then show False by simp
qed

text \<open>
  C1. Whatever the solve callback raises, the wrapper returns: nothing propagates. A
  \<^verbatim>\<open>TimeoutException\<close>, a \<^verbatim>\<open>NetworkException\<close>, an \<^verbatim>\<open>ApiException\<close> and any
  other exception (an instance of \<^verbatim>\<open>Exception\<close>) give the triple
  \<^verbatim>\<open>(False, tag, e)\<close> with the tag \<^verbatim>\<open>TIMEOUT\<close>, \<^verbatim>\<open>NETWORK_ERROR\<close>,
  \<^verbatim>\<open>API_ERROR\<close> and \<^verbatim>\<open>UNKNOWN_ERROR\<close>, and the exception object as third
  component.
\<close>

theorem solve_captcha_maps_exceptions:
  assumes "solve_callback w = (Raise e, w1)"
  shows "(\<exists>v w'. solve_captcha solve_callback result_callback debug w = (Return v, w'))
    \<and> (exn_class_of e = TimeoutException \<longrightarrow>
         fst (solve_captcha solve_callback result_callback debug w)
           = Return (PTuple [PBool False, PStr ''TIMEOUT'', PExn e]))
    \<and> (exn_class_of e = NetworkException \<longrightarrow>
         fst (solve_captcha solve_callback result_callback debug w)
           = Return (PTuple [PBool False, PStr ''NETWORK_ERROR'', PExn e]))
    \<and> (exn_class_of e = ApiException \<longrightarrow>
         fst (solve_captcha solve_callback result_callback debug w)
           = Return (PTuple [PBool False, PStr ''API_ERROR'', PExn e]))
    \<and> (\<forall>n. exn_class_of e = OtherException n \<longrightarrow>
         fst (solve_captcha solve_callback result_callback debug w)
           = Return (PTuple [PBool False, PStr ''UNKNOWN_ERROR'', PExn e]))"
  using assms by (simp add: solve_captcha_def finally_return_def split: exn_class.split)

theorem solve_captcha_maps_exceptions_witness:
  "fst (solve_captcha (\<lambda>w. (Raise (Exn TimeoutException ''slow''), w))
          (\<lambda>r w. (Return PNone, w)) True world0)
     = Return (PTuple [PBool False, PStr ''TIMEOUT'', PExn (Exn TimeoutException ''slow'')])
   \<and> fst (solve_captcha (\<lambda>w. (Raise (Exn NetworkException ''down''), w))
          (\<lambda>r w. (Return PNone, w)) True world0)
     = Return (PTuple [PBool False, PStr ''NETWORK_ERROR'', PExn (Exn NetworkException ''down'')])
   \<and> fst (solve_captcha (\<lambda>w. (Raise (Exn ApiException ''ERROR_ZERO_BALANCE''), w))
          (\<lambda>r w. (Return PNone, w)) True world0)
     = Return (PTuple [PBool False, PStr ''API_ERROR'',
                       PExn (Exn ApiException ''ERROR_ZERO_BALANCE'')])
   \<and> fst (solve_captcha (\<lambda>w. (Raise (Exn (OtherException ''ValueError'') ''bad''), w))
          (\<lambda>r w. (Return PNone, w)) True world0)
     = Return (PTuple [PBool False, PStr ''UNKNOWN_ERROR'',
                       PExn (Exn (OtherException ''ValueError'') ''bad'')])"
  using
    solve_captcha_maps_exceptions
      [of "\<lambda>w. (Raise (Exn TimeoutException ''slow''), w)" world0
          "Exn TimeoutException ''slow''" world0 "\<lambda>r w. (Return PNone, w)" True]
    solve_captcha_maps_exceptions
      [of "\<lambda>w. (Raise (Exn NetworkException ''down''), w)" world0
          "Exn NetworkException ''down''" world0 "\<lambda>r w. (Return PNone, w)" True]
    solve_captcha_maps_exceptions
      [of "\<lambda>w. (Raise (Exn ApiException ''ERROR_ZERO_BALANCE''), w)" world0
          "Exn ApiException ''ERROR_ZERO_BALANCE''" world0 "\<lambda>r w. (Return PNone, w)" True]
    solve_captcha_maps_exceptions
      [of "\<lambda>w. (Raise (Exn (OtherException ''ValueError'') ''bad''), w)" world0
          "Exn (OtherException ''ValueError'') ''bad''" world0 "\<lambda>r w. (Return PNone, w)" True]
  by simp

text \<open>
  C9. When the solve callback returns \<open>result\<close> and the apply callback then raises, the
  \<^verbatim>\<open>return\<close> in \<^verbatim>\<open>finally\<close> discards the exception and the wrapper returns
  \<open>result\<close> itself, the value of the solve callback, which is not the triple
  \<^verbatim>\<open>(True, "SOLVED", result)\<close> of the successful path.
\<close>

theorem solve_captcha_apply_exception_swallowed:
  assumes "solve_callback w = (Return result, w1)"
    and "result_callback result (debug_if debug (PStr ''Received 2Captcha response...'') w1)
           = (Raise e, w2)"
  shows "solve_captcha solve_callback result_callback debug w
           = (Return result, debug_if debug result w2)
         \<and> result \<noteq> PTuple [PBool True, PStr ''SOLVED'', result]"
  using assms by (simp add: solve_captcha_def finally_return_def pyval_not_in_itself)

theorem solve_captcha_apply_exception_swallowed_witness:
  "solve_captcha (\<lambda>w. (Return (PDict [(''captchaId'', ''7''), (''code'', ''AB12CD'')]), w))
      (\<lambda>r w. (Raise (Exn (OtherException ''StaleElementReferenceException'') ''gone''), w))
      False world0
     = (Return (PDict [(''captchaId'', ''7''), (''code'', ''AB12CD'')]), world0)"
  using
    solve_captcha_apply_exception_swallowed
      [of "\<lambda>w. (Return (PDict [(''captchaId'', ''7''), (''code'', ''AB12CD'')]), w)" world0
          "PDict [(''captchaId'', ''7''), (''code'', ''AB12CD'')]" world0
          "\<lambda>r w. (Raise (Exn (OtherException ''StaleElementReferenceException'') ''gone''), w)"
          False "Exn (OtherException ''StaleElementReferenceException'') ''gone''" world0]
  by (simp add: debug_if_def)

section \<open>Locating elements\<close>

lemma find_first_None: "find_first P xs = None \<longleftrightarrow> (\<forall>x\<in>set xs. \<not> P x)"
  by (induction xs) auto

lemma find_first_Some: "find_first P xs = Some i \<Longrightarrow> i < length xs \<and> P (xs ! i)"
  by (induction xs arbitrary: i) (auto split: if_splits)

lemma selects_sitekey:
  "selects CSS_SELECTOR ''[data-sitekey]'' e \<longleftrightarrow> map_of (attrs e) ''data-sitekey'' \<noteq> None"
  by (simp add: selects_def)

lemma selects_id: "selects ID v e \<longleftrightarrow> map_of (attrs e) ''id'' = Some v"
  by (simp add: selects_def)

section \<open>The two detection paths\<close>

text \<open>
  C2. On a page without the image element or without its input element,
  \<^verbatim>\<open>normal_captcha\<close> returns \<^verbatim>\<open>(False, "NO CAPTCHA FOUND IN", page_url)\<close>; on a
  page where no element carries a \<^verbatim>\<open>data-sitekey\<close> attribute,
  \<^verbatim>\<open>recaptcha_v2\<close> returns \<^verbatim>\<open>(False, "NO RECAPTCHA_V2 FOUND IN", page_url)\<close>.
  Both are returned values, and the world is left as it was.
\<close>

theorem not_found_is_returned:
  "((\<forall>e\<in>set (dom w). map_of (attrs e) ''id'' \<noteq> Some captcha_img_id)
      \<or> (\<forall>e\<in>set (dom w). map_of (attrs e) ''id'' \<noteq> Some captcha_input_id)
     \<longrightarrow> normal_captcha lib self page_url debug w
           = (Return (PTuple [PBool False, PStr ''NO CAPTCHA FOUND IN'', PStr page_url]), w))
   \<and> ((\<forall>e\<in>set (dom w). map_of (attrs e) ''data-sitekey'' = None)
     \<longrightarrow> recaptcha_v2 self page_url debug w
           = (Return (PTuple [PBool False, PStr ''NO RECAPTCHA_V2 FOUND IN'', PStr page_url]), w))"
proof (intro conjI impI)
  assume "(\<forall>e\<in>set (dom w). map_of (attrs e) ''id'' \<noteq> Some captcha_img_id)
      \<or> (\<forall>e\<in>set (dom w). map_of (attrs e) ''id'' \<noteq> Some captcha_input_id)"
  then have "is_elem_present ID captcha_img_id w = None
      \<or> is_elem_present ID captcha_input_id w = None"
    by (simp add: is_elem_present_def find_first_None selects_id)
  then have "save_captcha lib temp_path w = (Return None, w)"
    by (auto simp: save_captcha_def split: option.splits)
  then show "normal_captcha lib self page_url debug w
           = (Return (PTuple [PBool False, PStr ''NO CAPTCHA FOUND IN'', PStr page_url]), w)"
    by (simp add: normal_captcha_def)
next
  assume "\<forall>e\<in>set (dom w). map_of (attrs e) ''data-sitekey'' = None"
  then have "is_elem_present CSS_SELECTOR ''[data-sitekey]'' w = None"
    unfolding is_elem_present_def find_first_None selects_sitekey by simp
  then show "recaptcha_v2 self page_url debug w
           = (Return (PTuple [PBool False, PStr ''NO RECAPTCHA_V2 FOUND IN'', PStr page_url]), w)"
    by (simp add: recaptcha_v2_def)
qed

theorem not_found_is_returned_witness:
  "normal_captcha lib0 self0 ''https://example.org/login'' True (world0\<lparr>dom := [img_el]\<rparr>)
     = (Return (PTuple [PBool False, PStr ''NO CAPTCHA FOUND IN'',
                        PStr ''https://example.org/login'']), world0\<lparr>dom := [img_el]\<rparr>)
   \<and> recaptcha_v2 self0 ''https://example.org/login'' True (world0\<lparr>dom := [img_el]\<rparr>)
     = (Return (PTuple [PBool False, PStr ''NO RECAPTCHA_V2 FOUND IN'',
                        PStr ''https://example.org/login'']), world0\<lparr>dom := [img_el]\<rparr>)"
  using not_found_is_returned
    [of "world0\<lparr>dom := [img_el]\<rparr>" lib0 self0 "''https://example.org/login''" True]
  by (simp add: img_el_def captcha_img_id_def captcha_input_id_def)

section \<open>The image CAPTCHA, end to end\<close>

lemma temp_path_value: "temp_path = ''temp/normal_captcha.jpeg''"
  by (simp add: temp_path_def path_join_def)

lemma solved_path_AB12CD: "solved_path ''AB12CD'' = ''solved_captchas/AB12CD.jpeg''"
  by (simp add: solved_path_def path_join_def)

lemma world0_accepts_temp:
  "missing_directory [''temp'', ''solved_captchas''] ''temp/normal_captcha.jpeg'' = None"
  by (simp add: missing_directory_def dirname_def)

lemma world0_accepts_archive:
  "missing_directory [''temp'', ''solved_captchas''] ''solved_captchas/AB12CD.jpeg'' = None"
  by (simp add: missing_directory_def dirname_def)

lemma save_captcha_saves:
  assumes "is_elem_present ID captcha_img_id w = Some i"
    and "get_attribute i ''src'' w = Some src"
    and "is_elem_present ID captcha_input_id w = Some j"
    and "open_error w path = None"
    and "decodebytes lib (drop 23 src) = Return payload"
  shows "save_captcha lib path w = (Return (Some j), w\<lparr>files := (files w)(path \<mapsto> payload)\<rparr>)"
  using assms by (simp add: save_captcha_def open_wb_def write_file_def)

lemma requests_normal_wrapper:
  "requests (snd (solve_captcha (normal_solve self) (normal_apply j) debug w1))
     = requests w1 @ [Normal temp_path (files w1 temp_path) 1 6 6]"
  by (simp add: solve_captcha_def normal_solve_def normal_apply_def call_solver_def
      send_keys_def finally_return_def debug_if_def log_error_def
      split: res.split exn_class.split prod.split)

text \<open>What follows the wrapper in \<^verbatim>\<open>normal_captcha\<close> sends no request.\<close>

lemma requests_normal_captcha:
  assumes "save_captcha lib temp_path w = (Return (Some j), w1)"
  shows "requests (snd (normal_captcha lib self page_url debug w))
     = requests (snd (solve_captcha (normal_solve self) (normal_apply j) debug w1))"
proof -
  obtain r w2 where wr:
    "solve_captcha (normal_solve self) (normal_apply j) debug w1 = (Return r, w2)"
    using solve_captcha_returns by blast
  show ?thesis
    by (simp add: normal_captcha_def assms wr os_rename_def remove_files_def
        split: res.split prod.split option.split)
qed

text \<open>
  Where C3 fails as stated: the page has the image with the data URI and the input
  element, the service answers with the code \<^verbatim>\<open>AB12CD\<close> and archival is enabled, but
  the input is disabled. No keys reach the input and the archive gets no
  \<^verbatim>\<open>AB12CD.jpeg\<close>.
\<close>

theorem disabled_input_counterexample:
  "is_elem_present ID captcha_img_id locked_page = Some 0
   \<and> get_attribute 0 ''src'' locked_page = Some ''data:image/jpeg;base64,AAAA''
   \<and> is_elem_present ID captcha_input_id locked_page = Some 1
   \<and> open_error locked_page ''temp/normal_captcha.jpeg'' = None
   \<and> decodebytes lib0 ''AAAA'' = Return three_zero_bytes
   \<and> solver self0 (Normal ''temp/normal_captcha.jpeg'' (Some three_zero_bytes) 1 6 6)
       = Return (PDict answer0)
   \<and> map_of answer0 ''code'' = Some ''AB12CD''
   \<and> save_solved_captchas self0
   \<and> browser (snd (normal_captcha lib0 self0 ''https://example.org/login'' False locked_page))
       = []
   \<and> files (snd (normal_captcha lib0 self0 ''https://example.org/login'' False locked_page))
        ''solved_captchas/AB12CD.jpeg'' = None"
  by (simp add: normal_captcha_def save_captcha_def open_wb_def write_file_def
      is_elem_present_def locked_page_def world0_def img_el_def locked_input_el_def
      selects_def captcha_img_id_def captcha_input_id_def get_attribute_def lib0_def
      self0_def answer0_def solve_captcha_def normal_solve_def normal_apply_def
      call_solver_def send_keys_def finally_return_def debug_if_def unpack_error_def
      temp_path_value world0_accepts_temp)

text \<open>
  C3, amended. The page has the image element with
  \<^verbatim>\<open>src="data:image/jpeg;base64,AAAA"\<close> and the input element, and the temp file can
  be created; \<open>payload\<close> is what \<^verbatim>\<open>base64.decodebytes\<close> makes of \<^verbatim>\<open>AAAA\<close>, the
  attribute without its first 23 characters. Then the solver is asked once, with the
  temp file holding \<open>payload\<close> and with \<^verbatim>\<open>caseSensitive=1, minLength=6,
  maxLength=6\<close>. When moreover the input element accepts keys (and, with archival
  enabled, the move into the archive is not refused), on the answer
  \<^verbatim>\<open>{code: "AB12CD"}\<close> the input element receives the keys \<^verbatim>\<open>AB12CD\<close>, the result
  is \<^verbatim>\<open>(True, "SOLVED", answer)\<close>, and the temp file is moved to \<^verbatim>\<open>AB12CD.jpeg\<close>
  in the archive directory when archival is enabled (removed otherwise).
\<close>

theorem normal_captcha_end_to_end:
  assumes img: "is_elem_present ID captcha_img_id w = Some i"
    and src: "get_attribute i ''src'' w = Some ''data:image/jpeg;base64,AAAA''"
    and inp: "is_elem_present ID captcha_input_id w = Some j"
    and opn: "open_error w ''temp/normal_captcha.jpeg'' = None"
    and dec: "decodebytes lib ''AAAA'' = Return payload"
    and sol: "solver self (Normal ''temp/normal_captcha.jpeg'' (Some payload) 1 6 6)
                = Return (PDict d)"
    and code: "map_of d ''code'' = Some ''AB12CD''"
  shows "requests (snd (normal_captcha lib self page_url debug w))
           = requests w @ [Normal ''temp/normal_captcha.jpeg'' (Some payload) 1 6 6]
    \<and> (interactable (dom w ! j)
        \<and> (save_solved_captchas self
             \<longrightarrow> rename_error w ''temp/normal_captcha.jpeg'' ''solved_captchas/AB12CD.jpeg''
                   = None)
       \<longrightarrow> fst (normal_captcha lib self page_url debug w)
             = Return (PTuple [PBool True, PStr ''SOLVED'', PDict d])
         \<and> browser (snd (normal_captcha lib self page_url debug w))
             = browser w @ [SendKeys j ''AB12CD'']
         \<and> files (snd (normal_captcha lib self page_url debug w))
             = (if save_solved_captchas self
                then ((files w)(''temp/normal_captcha.jpeg'' := None))
                       (''solved_captchas/AB12CD.jpeg'' \<mapsto> payload)
                else (files w)(''temp/normal_captcha.jpeg'' := None)))"
proof (intro conjI impI)
  from inp have j: "j < length (dom w)"
    by (auto simp: is_elem_present_def dest: find_first_Some)
  have opn': "open_error w temp_path = None"
    using opn by (simp add: temp_path_value)
  have saved: "save_captcha lib temp_path w
      = (Return (Some j), w\<lparr>files := (files w)(temp_path \<mapsto> payload)\<rparr>)"
    using save_captcha_saves [OF img src inp opn'] dec by simp
  have "requests (snd (normal_captcha lib self page_url debug w))
           = requests w @ [Normal temp_path (Some payload) 1 6 6]"
    by (simp add: requests_normal_captcha [OF saved] requests_normal_wrapper)
  then show "requests (snd (normal_captcha lib self page_url debug w))
           = requests w @ [Normal ''temp/normal_captcha.jpeg'' (Some payload) 1 6 6]"
    by (simp add: temp_path_value)
  assume ok: "interactable (dom w ! j)
        \<and> (save_solved_captchas self
             \<longrightarrow> rename_error w ''temp/normal_captcha.jpeg'' ''solved_captchas/AB12CD.jpeg''
                   = None)"
  have run: "fst (normal_captcha lib self page_url debug w)
             = Return (PTuple [PBool True, PStr ''SOLVED'', PDict d])
         \<and> browser (snd (normal_captcha lib self page_url debug w))
             = browser w @ [SendKeys j ''AB12CD'']
         \<and> files (snd (normal_captcha lib self page_url debug w))
             = (if save_solved_captchas self
                then ((files w)(temp_path := None))(solved_path ''AB12CD'' \<mapsto> payload)
                else (files w)(temp_path := None))"
    using j ok sol code
    by (simp add: normal_captcha_def saved solve_captcha_def normal_solve_def
        normal_apply_def call_solver_def send_keys_def finally_return_def debug_if_def
        os_rename_def remove_files_def temp_path_value [symmetric]
        solved_path_AB12CD [symmetric])
  show "fst (normal_captcha lib self page_url debug w)
             = Return (PTuple [PBool True, PStr ''SOLVED'', PDict d])"
    using run by (rule conjunct1)
  show "browser (snd (normal_captcha lib self page_url debug w))
             = browser w @ [SendKeys j ''AB12CD'']"
    using run by (elim conjE)
  show "files (snd (normal_captcha lib self page_url debug w))
             = (if save_solved_captchas self
                then ((files w)(''temp/normal_captcha.jpeg'' := None))
                       (''solved_captchas/AB12CD.jpeg'' \<mapsto> payload)
                else (files w)(''temp/normal_captcha.jpeg'' := None))"
    using run by (simp add: temp_path_value solved_path_AB12CD)
qed

lemma image_page_img: "is_elem_present ID captcha_img_id image_page = Some 0"
  by (simp add: is_elem_present_def image_page_def world0_def img_el_def selects_def)

lemma image_page_input: "is_elem_present ID captcha_input_id image_page = Some 1"
  by (simp add: is_elem_present_def image_page_def world0_def img_el_def input_el_def
      selects_def captcha_img_id_def captcha_input_id_def)

theorem normal_captcha_end_to_end_witness:
  "requests (snd (normal_captcha lib0 self0 ''https://example.org/login'' False image_page))
     = [Normal ''temp/normal_captcha.jpeg'' (Some three_zero_bytes) 1 6 6]
   \<and> fst (normal_captcha lib0 self0 ''https://example.org/login'' False image_page)
     = Return (PTuple [PBool True, PStr ''SOLVED'', PDict answer0])
   \<and> browser (snd (normal_captcha lib0 self0 ''https://example.org/login'' False image_page))
     = [SendKeys 1 ''AB12CD'']
   \<and> files (snd (normal_captcha lib0 self0 ''https://example.org/login'' False image_page))
        ''solved_captchas/AB12CD.jpeg'' = Some three_zero_bytes
   \<and> files (snd (normal_captcha lib0 self0 ''https://example.org/login'' False image_page))
        ''temp/normal_captcha.jpeg'' = None"
  using normal_captcha_end_to_end [of image_page 0 1 lib0 three_zero_bytes self0 answer0
      "''https://example.org/login''" False]
    image_page_img image_page_input
  by (simp add: temp_path_value solved_path_AB12CD get_attribute_def image_page_def
      world0_def img_el_def input_el_def lib0_def self0_def answer0_def
      world0_accepts_temp world0_accepts_archive)

section \<open>reCAPTCHA v2: applying the answer\<close>

lemma recaptcha_solved:
  assumes key: "is_elem_present CSS_SELECTOR ''[data-sitekey]'' w = Some k"
    and sol: "solver self (Recaptcha (get_attribute k ''data-sitekey'' w) page_url) = Return result"
    and code: "getitem result ''code'' = Return code"
    and field: "find_element ID ''g-recaptcha-response'' w = Return el"
  shows "recaptcha_v2 self page_url debug w =
     (Return (PTuple [PBool True, PStr ''SOLVED'', result]),
      debug_if debug (PTuple [PBool True, PStr ''SOLVED'', result])
        (execute_script (response_script (py_str code)) [el]
           (debug_if debug (PStr ''Received 2Captcha response...'')
              (w\<lparr>requests := requests w
                   @ [Recaptcha (get_attribute k ''data-sitekey'' w) page_url]\<rparr>))))"
  using assms
  by (simp add: recaptcha_v2_def solve_captcha_def call_solver_def submit_captcha_response_def
      finally_return_def find_element_def debug_if_def execute_script_def)

lemma recaptcha_no_field:
  assumes key: "is_elem_present CSS_SELECTOR ''[data-sitekey]'' w = Some k"
    and sol: "solver self (Recaptcha (get_attribute k ''data-sitekey'' w) page_url) = Return result"
    and field: "find_element ID ''g-recaptcha-response'' w = Raise e"
  shows "fst (recaptcha_v2 self page_url debug w) = Return result"
  using assms
  by (simp add: recaptcha_v2_def solve_captcha_def call_solver_def submit_captcha_response_def
      finally_return_def find_element_def debug_if_def execute_script_def)

text \<open>
  C5. The page has a site-key element and the solver answers with a dictionary whose
  \<^verbatim>\<open>code\<close> is \<open>c\<close>. Then \<^verbatim>\<open>recaptcha_v2\<close> reports the solve as successful exactly when the
  hidden field \<^verbatim>\<open>g-recaptcha-response\<close> is found, and then the only command sent to
  the browser is one \<^verbatim>\<open>execute_script\<close> call whose script is the text
  \<^verbatim>\<open>arguments[0].value="\<close>, the code \<open>c\<close> and a closing double quote, with the field
  as its argument: no keys are typed.
\<close>

theorem recaptcha_sets_response_by_script:
  assumes key: "is_elem_present CSS_SELECTOR ''[data-sitekey]'' w = Some k"
    and sol: "solver self (Recaptcha (get_attribute k ''data-sitekey'' w) page_url)
                = Return (PDict d)"
    and code: "map_of d ''code'' = Some c"
  shows "(fst (recaptcha_v2 self page_url debug w)
            = Return (PTuple [PBool True, PStr ''SOLVED'', PDict d])
          \<longleftrightarrow> (\<exists>el. find_element ID ''g-recaptcha-response'' w = Return el))
    \<and> (\<forall>el. find_element ID ''g-recaptcha-response'' w = Return el \<longrightarrow>
          browser (snd (recaptcha_v2 self page_url debug w))
            = browser w
              @ [ExecuteScript (''arguments[0].value='' @ [CHR 0x22] @ c @ [CHR 0x22]) [el]])"
proof (cases "find_element ID ''g-recaptcha-response'' w")
  case (Return el)
  have item: "getitem (PDict d) ''code'' = Return (PStr c)"
    by (simp add: code)
  note run = recaptcha_solved [OF key sol item Return, of debug]
  have "fst (recaptcha_v2 self page_url debug w)
      = Return (PTuple [PBool True, PStr ''SOLVED'', PDict d])"
    by (simp add: run)
  moreover have "browser (snd (recaptcha_v2 self page_url debug w))
      = browser w @ [ExecuteScript (''arguments[0].value='' @ [CHR 0x22] @ c @ [CHR 0x22]) [el]]"
    by (simp add: run debug_if_def execute_script_def response_script_def)
  ultimately show ?thesis
    using Return by simp
next
  case (Raise e)
  have "fst (recaptcha_v2 self page_url debug w) = Return (PDict d)"
    by (rule recaptcha_no_field [OF key sol Raise])
  then show ?thesis
    using Raise by simp
qed

lemma recaptcha_page_key:
  "is_elem_present CSS_SELECTOR ''[data-sitekey]'' recaptcha_page = Some 0"
  by (simp add: is_elem_present_def recaptcha_page_def world0_def sitekey_el_def selects_def)

lemma recaptcha_page_field:
  "find_element ID ''g-recaptcha-response'' recaptcha_page = Return 1"
  by (simp add: find_element_def recaptcha_page_def world0_def sitekey_el_def response_el_def
      selects_def)

theorem recaptcha_sets_response_by_script_witness:
  "fst (recaptcha_v2 token_self ''https://example.org/login'' False recaptcha_page)
     = Return (PTuple [PBool True, PStr ''SOLVED'', PDict token_answer])
   \<and> browser (snd (recaptcha_v2 token_self ''https://example.org/login'' False recaptcha_page))
       = [ExecuteScript
            (''arguments[0].value='' @ [CHR 0x22] @ ''03AGdBq24_tok-en'' @ [CHR 0x22]) [1]]"
proof -
  have sol: "solver token_self
      (Recaptcha (get_attribute 0 ''data-sitekey'' recaptcha_page) ''https://example.org/login'')
      = Return (PDict token_answer)"
    by (simp add: token_self_def)
  have code: "map_of token_answer ''code'' = Some ''03AGdBq24_tok-en''"
    by (simp add: token_answer_def)
  have empty: "browser recaptcha_page = []"
    by (simp add: recaptcha_page_def world0_def)
  show ?thesis
    using recaptcha_sets_response_by_script [OF recaptcha_page_key sol code, of False]
      recaptcha_page_field empty
    by simp
qed

section \<open>\<^verbatim>\<open>solve\<close>: kinds that are not wired\<close>

text \<open>
  Where C7 fails as stated: solving is enabled and the kind is \<^verbatim>\<open>turnstile\<close>, and
  the returned status is the
  two characters \<^verbatim>\<open>": "\<close> (the f-string \<^verbatim>\<open>f"{status}: {msg}"\<close> on two empty
  strings), not the empty string.
\<close>

theorem unknown_kind_status_counterexample:
  "fst (solve lib0 self0 (Some ''turnstile'') (Some ''https://example.org/login'') False False world0)
     = Return (PBool False, '': '')
   \<and> fst (solve lib0 self0 (Some ''turnstile'') (Some ''https://example.org/login'')
            False False world0)
     \<noteq> Return (PBool False, [])"
  by (simp add: solve_def or_default_def dispatch_def self0_def str_lower_def lower_char_def debug_if_def)

text \<open>
  C7, amended. With solving enabled (or forced) and a non-empty kind that is neither
  \<^verbatim>\<open>recaptcha_v2\<close> nor \<^verbatim>\<open>normal_captcha\<close> in lower case, \<^verbatim>\<open>solve\<close> returns
  \<^verbatim>\<open>(False, ": ")\<close> and does no more than write the debug line
  \<^verbatim>\<open>Solving KIND for: url\<close>: the browser, the solving service and the files are not
  touched.
\<close>

theorem solve_unknown_kind:
  assumes "enabled self \<or> force_enable"
    and "captcha_type \<noteq> []"
    and "str_lower captcha_type \<noteq> ''recaptcha_v2''"
    and "str_lower captcha_type \<noteq> ''normal_captcha''"
  shows "solve lib self (Some captcha_type) page_url force_enable force_debug w =
     (Return (PBool False, '': ''),
      debug_if (debug_enabled self \<or> force_debug)
        (PStr (''Solving '' @ str_upper captcha_type @ '' for: ''
                 @ or_default page_url (current_url w))) w)"
  using assms by (simp add: solve_def or_default_def dispatch_def Let_def)

theorem solve_unknown_kind_witness:
  "solve lib0 self0 (Some ''Turnstile'') None False True image_page =
     (Return (PBool False, '': ''),
      image_page\<lparr>logged := [Debug (PStr ''Solving TURNSTILE for: https://example.org/login'')]\<rparr>)"
  using solve_unknown_kind [of self0 False "''Turnstile''" lib0 None True image_page]
  by (simp add: self0_def str_lower_def str_upper_def lower_char_def upper_char_def or_default_def debug_if_def
      image_page_def world0_def)

section \<open>The Turnstile entry point\<close>

text \<open>
  C8. For every browser state, \<^verbatim>\<open>cloudflare_turnstile\<close> raises
  \<^verbatim>\<open>AttributeError\<close> at its first step and leaves the world as it was: the name it
  looks up, \<^verbatim>\<open>get_capture_params\<close>, is not an attribute of the class, which
  defines \<^verbatim>\<open>get_captcha_params\<close>. The dispatch of \<^verbatim>\<open>solve\<close> is one of the two
  wired handlers or the default triple, and \<^verbatim>\<open>solve\<close> asked for the kind
  \<^verbatim>\<open>cloudflare_turnstile\<close> returns \<^verbatim>\<open>(False, ": ")\<close>.
\<close>

theorem turnstile_is_unreachable:
  "cloudflare_turnstile lib self debug w =
     (Raise (Exn (OtherException ''AttributeError'')
               ''Captcha object has no attribute get_capture_params''), w)
   \<and> ''get_capture_params'' \<notin> set Captcha_attributes
   \<and> ''get_captcha_params'' \<in> set Captcha_attributes
   \<and> (dispatch lib self captcha_type page_url debug w
         = unpacked (recaptcha_v2 self page_url debug w)
      \<or> dispatch lib self captcha_type page_url debug w
         = unpacked (normal_captcha lib self page_url debug w)
      \<or> dispatch lib self captcha_type page_url debug w
         = (Return (PBool False, PStr [], PStr []), w))
   \<and> fst (solve lib self (Some ''cloudflare_turnstile'') page_url0 True force_debug w)
        = Return (PBool False, '': '')"
  by (simp add: cloudflare_turnstile_def getattr_Captcha_def Captcha_attributes_def
      dispatch_def solve_def or_default_def str_lower_def lower_char_def Let_def)

section \<open>\<^verbatim>\<open>solve\<close>: default arguments\<close>

text \<open>
  C10. An omitted \<^verbatim>\<open>captcha_type\<close> is \<^verbatim>\<open>recaptcha_v2\<close>, an omitted
  \<^verbatim>\<open>page_url\<close> is the current URL of the browser, and with solving enabled the bare
  call \<^verbatim>\<open>solve(driver)\<close> is the reCAPTCHA v2 path on the current page.
\<close>

theorem solve_defaults:
  "solve lib self None page_url force_enable force_debug w
     = solve lib self (Some ''recaptcha_v2'') page_url force_enable force_debug w
   \<and> solve lib self captcha_type None force_enable force_debug w
     = solve lib self captcha_type (Some (current_url w)) force_enable force_debug w
   \<and> (enabled self \<longrightarrow>
        solve lib self None None False False w =
          (case unpacked (recaptcha_v2 self (current_url w) (debug_enabled self)
                  (debug_if (debug_enabled self)
                     (PStr (''Solving RECAPTCHA_V2 for: '' @ current_url w)) w)) of
             (Raise e, w1) \<Rightarrow> (Raise e, w1)
           | (Return (success, status, msg), w1) \<Rightarrow>
               (Return (success, py_str status @ '': '' @ py_str msg),
                if truthy success
                then log_entry_if (debug_enabled self) (DebugTook False ''RECAPTCHA_V2'') w1
                else w1)))"
  by (simp add: solve_def or_default_def dispatch_def str_lower_def str_upper_def lower_char_def upper_char_def Let_def split: prod.split res.split)

theorem solve_defaults_witness:
  "solve lib0 self0 None None False False recaptcha_page
     = solve lib0 self0 (Some ''recaptcha_v2'') (Some ''https://example.org/login'')
         False False recaptcha_page
   \<and> fst (solve lib0 self0 None None False False recaptcha_page)
     = Return (PBool True, ''SOLVED: '' @ py_str (PDict answer0))"
proof -
  have url: "current_url recaptcha_page = ''https://example.org/login''"
    by (simp add: recaptcha_page_def world0_def)
  have en: "enabled self0" and dbg: "\<not> debug_enabled self0"
    by (simp_all add: self0_def)
  have sol: "solver self0
      (Recaptcha (get_attribute 0 ''data-sitekey'' recaptcha_page) (current_url recaptcha_page))
      = Return (PDict answer0)"
    by (simp add: self0_def)
  have code: "getitem (PDict answer0) ''code'' = Return (PStr ''AB12CD'')"
    by (simp add: answer0_def)
  obtain w' where run: "recaptcha_v2 self0 (current_url recaptcha_page) False recaptcha_page
      = (Return (PTuple [PBool True, PStr ''SOLVED'', PDict answer0]), w')"
    using recaptcha_solved [OF recaptcha_page_key sol code recaptcha_page_field, of False]
    by simp
  note t = solve_defaults [of lib0 self0 "Some (current_url recaptcha_page)" False False
      recaptcha_page None]
  have a: "solve lib0 self0 None (Some (current_url recaptcha_page)) False False recaptcha_page
      = solve lib0 self0 (Some ''recaptcha_v2'') (Some (current_url recaptcha_page))
          False False recaptcha_page"
    by (rule t [THEN conjunct1])
  have b: "solve lib0 self0 None None False False recaptcha_page
      = solve lib0 self0 None (Some (current_url recaptcha_page)) False False recaptcha_page"
    by (rule t [THEN conjunct2, THEN conjunct1])
  have c: "solve lib0 self0 None None False False recaptcha_page =
          (case unpacked (recaptcha_v2 self0 (current_url recaptcha_page) (debug_enabled self0)
                  (debug_if (debug_enabled self0)
                     (PStr (''Solving RECAPTCHA_V2 for: '' @ current_url recaptcha_page))
                     recaptcha_page)) of
             (Raise e, w1) \<Rightarrow> (Raise e, w1)
           | (Return (success, status, msg), w1) \<Rightarrow>
               (Return (success, py_str status @ '': '' @ py_str msg),
                if truthy success
                then log_entry_if (debug_enabled self0) (DebugTook False ''RECAPTCHA_V2'') w1
                else w1))"
    by (rule t [THEN conjunct2, THEN conjunct2, THEN mp, OF en])
  have "fst (solve lib0 self0 None None False False recaptcha_page)
     = Return (PBool True, ''SOLVED: '' @ py_str (PDict answer0))"
    using dbg by (simp add: c debug_if_def run unpacked_def)
  with a b url show ?thesis by simp
qed

section \<open>The temp file of the image CAPTCHA\<close>

text \<open>
  C4, at an input where it fails. The page has the image and a disabled input,
  archival is enabled and the service answers with the code \<^verbatim>\<open>AB12CD\<close>. Typing
  the code raises, the wrapper returns the raw answer, unpacking it into three names
  raises \<^verbatim>\<open>ValueError\<close>, and neither \<^verbatim>\<open>os.rename\<close> nor
  \<^verbatim>\<open>remove_files\<close> runs: the temp file is still there and the archive has no
  \<^verbatim>\<open>AB12CD.jpeg\<close>.
\<close>

theorem temp_file_left_when_apply_raises:
  "fst (normal_captcha lib0 self0 ''https://example.org/login'' False locked_page)
     = Raise (Exn (OtherException ''ValueError'') ''not enough values to unpack (expected 3)'')
   \<and> files (snd (normal_captcha lib0 self0 ''https://example.org/login'' False locked_page))
        temp_path = Some three_zero_bytes
   \<and> files (snd (normal_captcha lib0 self0 ''https://example.org/login'' False locked_page))
        (solved_path ''AB12CD'') = None"
  by (simp add: normal_captcha_def save_captcha_def open_wb_def write_file_def
      world0_accepts_temp temp_path_value is_elem_present_def locked_page_def
      world0_def img_el_def locked_input_el_def selects_def captcha_img_id_def
      captcha_input_id_def get_attribute_def lib0_def self0_def answer0_def
      solve_captcha_def normal_solve_def normal_apply_def call_solver_def send_keys_def
      finally_return_def debug_if_def unpack_error_def temp_path_def solved_path_def
      path_join_def)

lemma files_normal_wrapper:
  "files (snd (solve_captcha (normal_solve self) (normal_apply j) debug w1)) = files w1"
  by (simp add: solve_captcha_def normal_solve_def normal_apply_def call_solver_def
      send_keys_def finally_return_def debug_if_def log_error_def
      split: res.split exn_class.split prod.split)

lemma solved_path_not_temp: "solved_path code \<noteq> temp_path"
proof -
  have "hd (solved_path code) \<noteq> CHR ''t''"
    by (cases code) (simp_all add: solved_path_def path_join_def)
  moreover have "hd temp_path = CHR ''t''"
    by (simp add: temp_path_def path_join_def)
  ultimately show ?thesis by auto
qed

lemma save_captcha_written:
  assumes "save_captcha lib p w = (Return (Some j), w1)"
  shows "\<exists>payload. w1 = w\<lparr>files := (files w)(p \<mapsto> payload)\<rparr>"
  using assms
  by (auto simp: save_captcha_def open_wb_def write_file_def split: option.splits res.splits)

text \<open>
  On every run that wrote the temp file and on which \<^verbatim>\<open>normal_captcha\<close> returns,
  the temp file is gone: either the files are those of before without it, or archival
  is enabled and its content sits under some \<^verbatim>\<open>{code}.jpeg\<close> in the archive. The
  temp file survives only on runs that end in an exception.
\<close>

lemma normal_captcha_cleanup:
  assumes saved: "save_captcha lib temp_path w = (Return (Some j), w1)"
    and ret: "normal_captcha lib self page_url debug w = (Return v, w')"
  shows "files w' temp_path = None
    \<and> (files w' = (files w)(temp_path := None)
       \<or> save_solved_captchas self
         \<and> (\<exists>code. files w' = ((files w)(temp_path := None))(solved_path code := files w1 temp_path)))"
proof -
  obtain payload where w1: "w1 = w\<lparr>files := (files w)(temp_path \<mapsto> payload)\<rparr>"
    using save_captcha_written [OF saved] by blast
  obtain r w2 where wr: "solve_captcha (normal_solve self) (normal_apply j) debug w1 = (Return r, w2)"
    using solve_captcha_returns by blast
  have f2: "files w2 = (files w)(temp_path \<mapsto> payload)"
    using files_normal_wrapper [of self j debug w1] unfolding wr by (simp add: w1)
  from ret obtain success status msg where up: "unpack3 r = Return (success, status, msg)"
    by (cases "unpack3 r") (auto simp: normal_captcha_def saved wr)
  show ?thesis
  proof (cases "save_solved_captchas self \<and> truthy success \<and> status = PStr ''SOLVED''")
    case False
    then have "w' = remove_files [temp_path] w2"
      using ret by (auto simp: normal_captcha_def saved wr up)
    then show ?thesis
      by (simp add: remove_files_def f2)
  next
    case True
    then obtain code where c: "getitem msg ''code'' = Return code"
      using ret by (cases "getitem msg ''code''") (auto simp: normal_captcha_def saved wr up)
    have "w' = w2\<lparr>files := ((files w2)(temp_path := None))(solved_path (py_str code) \<mapsto> payload)\<rparr>"
      using ret True
      by (auto simp: normal_captcha_def saved wr up c os_rename_def f2 split: option.splits)
    then show ?thesis
      using True solved_path_not_temp [of "py_str code"]
      by (auto simp: f2 w1)
  qed
qed

section \<open>\<^verbatim>\<open>solve\<close>: the manual path\<close>

text \<open>
  Where C6 fails as stated: solving is disabled, a line of input acknowledges the
  prompt, archival is enabled, the kind is \<^verbatim>\<open>normal_captcha\<close>, and the image on the
  page has no \<^verbatim>\<open>src\<close> attribute. After the prompt, \<^verbatim>\<open>save_captcha\<close> raises
  \<^verbatim>\<open>TypeError\<close> and \<^verbatim>\<open>solve\<close> does not return.
\<close>

theorem manual_solve_counterexample:
  "\<not> enabled manual_self \<and> stdin no_src_page = [[]]
   \<and> fst (solve lib0 manual_self (Some ''normal_captcha'') None False False no_src_page)
       = Raise (Exn (OtherException ''TypeError'') ''object is not subscriptable'')"
  by (simp add: solve_def or_default_def manual_self_def self0_def no_src_page_def world0_def
      str_lower_def lower_char_def debug_if_def input_def print_def is_elem_present_def
      selects_def no_src_img_el_def typed_input_el_def captcha_img_id_def captcha_input_id_def
      save_captcha_def get_attribute_def Let_def)

lemma dom_after_prompt:
  "dom ((print p (debug_if d m w))\<lparr>stdin := ls\<rparr>) = dom w"
  by (simp add: print_def debug_if_def)

lemma open_error_after_prompt:
  "open_error ((print p (debug_if d m w))\<lparr>stdin := ls\<rparr>) = open_error w"
  by (simp add: print_def debug_if_def)

lemma stdout_save_captcha: "stdout (snd (save_captcha lib p w)) = stdout w"
  by (simp add: save_captcha_def open_wb_def write_file_def
      split: option.split res.split prod.split)

lemma is_elem_present_dom: "dom w' = dom w \<Longrightarrow> is_elem_present b v w' = is_elem_present b v w"
  by (simp add: is_elem_present_def)

lemma get_attribute_dom: "dom w' = dom w \<Longrightarrow> get_attribute h n w' = get_attribute h n w"
  by (simp add: get_attribute_def)

text \<open>The outcome of \<^verbatim>\<open>save_captcha\<close>, cause by cause.\<close>

lemma save_captcha_outcome:
  "fst (save_captcha lib p w) =
     (case (is_elem_present ID captcha_img_id w, is_elem_present ID captcha_input_id w) of
        (Some i, Some j) \<Rightarrow>
          (case get_attribute i ''src'' w of
             None \<Rightarrow> Raise (Exn (OtherException ''TypeError'') ''object is not subscriptable'')
           | Some src \<Rightarrow>
               (case open_error w p of
                  Some e \<Rightarrow> Raise e
                | None \<Rightarrow>
                    (case decodebytes lib (drop 23 src) of
                       Raise e \<Rightarrow> Raise e
                     | Return payload \<Rightarrow> Return (Some j))))
      | _ \<Rightarrow> Return None)"
  by (simp add: save_captcha_def open_wb_def split: option.split res.split)

text \<open>
  C6, amended. With solving disabled and not forced, and a line of standard input to
  acknowledge the prompt, \<^verbatim>\<open>solve\<close> writes the prompt and then returns
  \<^verbatim>\<open>(True, "Manually solved CAPTCHA")\<close>, for every kind and page, unless the
  archival step raises. That step runs when archival is enabled, the kind is
  \<^verbatim>\<open>normal_captcha\<close> and the image and the input are both present; it raises
  \<^verbatim>\<open>TypeError\<close> when the image has no \<^verbatim>\<open>src\<close>, the error of \<^verbatim>\<open>open\<close> when
  the archive file named after the typed value cannot be opened, and the decoder's
  error when the payload is rejected, and \<^verbatim>\<open>solve\<close> then raises the same. It never
  returns a failure.
\<close>

theorem manual_solve_outcome:
  assumes off: "\<not> enabled self" "\<not> force_enable"
    and ack: "stdin w \<noteq> []"
  shows "fst (solve lib self captcha_type page_url force_enable force_debug w) =
      (if save_solved_captchas self
          \<and> str_lower (or_default captcha_type ''recaptcha_v2'') = ''normal_captcha''
       then
         (case (is_elem_present ID captcha_img_id w, is_elem_present ID captcha_input_id w) of
            (Some i, Some j) \<Rightarrow>
              (case get_attribute i ''src'' w of
                 None \<Rightarrow>
                   Raise (Exn (OtherException ''TypeError'') ''object is not subscriptable'')
               | Some src \<Rightarrow>
                   (case open_error w
                           (solved_path (str_of_attribute (get_attribute j ''value'' w))) of
                      Some e \<Rightarrow> Raise e
                    | None \<Rightarrow>
                        (case decodebytes lib (drop 23 src) of
                           Raise e \<Rightarrow> Raise e
                         | Return payload \<Rightarrow>
                             Return (PBool True, ''Manually solved CAPTCHA''))))
          | _ \<Rightarrow> Return (PBool True, ''Manually solved CAPTCHA''))
       else Return (PBool True, ''Manually solved CAPTCHA''))
    \<and> stdout (snd (solve lib self captcha_type page_url force_enable force_debug w))
        = stdout w @ [''Press enter to proceed: '']"
proof -
  define ct where "ct = or_default captcha_type ''recaptcha_v2''"
  define dbg where "dbg = (debug_enabled self \<or> force_debug)"
  define m where
    "m = PStr (''Manually solving CAPTCHA for: '' @ or_default page_url (current_url w))"
  obtain l ls where st: "stdin w = l # ls"
    using ack by (cases "stdin w") auto
  define w1 where "w1 = (print ''Press enter to proceed: '' (debug_if dbg m w))\<lparr>stdin := ls\<rparr>"
  have inp: "input p (debug_if dbg m' w)
      = (Return l, (print p (debug_if dbg m' w))\<lparr>stdin := ls\<rparr>)" for p m'
    by (simp add: input_def st debug_if_def)
  have dom1: "dom w1 = dom w"
    by (simp add: w1_def dom_after_prompt)
  have opn1: "open_error w1 = open_error w"
    by (simp add: w1_def open_error_after_prompt)
  have out1: "stdout w1 = stdout w @ [''Press enter to proceed: '']"
    by (simp add: w1_def print_def debug_if_def)
  have inp1: "is_elem_present ID captcha_input_id w1 = is_elem_present ID captcha_input_id w"
    by (rule is_elem_present_dom [OF dom1])
  define archive where
    "archive = solved_path (str_of_attribute
                  (get_attribute (the (is_elem_present ID captcha_input_id w1)) ''value'' w1))"
  have arch: "archive = solved_path (str_of_attribute
                  (get_attribute (the (is_elem_present ID captcha_input_id w)) ''value'' w))"
    by (simp add: archive_def inp1 get_attribute_dom [OF dom1])
  have eq1: "solve lib self captcha_type page_url force_enable force_debug w =
      (if save_solved_captchas self \<and> str_lower ct = ''normal_captcha''
       then (case is_elem_present ID captcha_input_id w1 of
               None \<Rightarrow> manual_done dbg ct w1
             | Some captcha_input \<Rightarrow>
                 (case save_captcha lib archive w1 of
                    (Raise e, w2) \<Rightarrow> (Raise e, w2)
                  | (Return _, w2) \<Rightarrow> manual_done dbg ct w2))
       else manual_done dbg ct w1)"
    using off unfolding w1_def m_def archive_def ct_def dbg_def
    by (simp add: solve_def Let_def inp [unfolded dbg_def] split: option.split)
  have eq: "solve lib self captcha_type page_url force_enable force_debug w =
      (if save_solved_captchas self \<and> str_lower ct = ''normal_captcha''
       then (case is_elem_present ID captcha_input_id w of
               None \<Rightarrow> manual_done dbg ct w1
             | Some captcha_input \<Rightarrow>
                 (case save_captcha lib archive w1 of
                    (Raise e, w2) \<Rightarrow> (Raise e, w2)
                  | (Return _, w2) \<Rightarrow> manual_done dbg ct w2))
       else manual_done dbg ct w1)"
    using eq1 by (simp only: inp1)
  have sv: "fst (save_captcha lib archive w1) =
     (case (is_elem_present ID captcha_img_id w, is_elem_present ID captcha_input_id w) of
        (Some i, Some j) \<Rightarrow>
          (case get_attribute i ''src'' w of
             None \<Rightarrow> Raise (Exn (OtherException ''TypeError'') ''object is not subscriptable'')
           | Some src \<Rightarrow>
               (case open_error w archive of
                  Some e \<Rightarrow> Raise e
                | None \<Rightarrow>
                    (case decodebytes lib (drop 23 src) of
                       Raise e \<Rightarrow> Raise e
                     | Return payload \<Rightarrow> Return (Some j))))
      | _ \<Rightarrow> Return None)"
    by (simp add: save_captcha_outcome is_elem_present_dom [OF dom1]
        get_attribute_dom [OF dom1] opn1 split: option.split res.split)
  obtain r w2 where rw: "save_captcha lib archive w1 = (r, w2)"
    by (cases "save_captcha lib archive w1")
  have out2: "stdout w2 = stdout w1"
    using stdout_save_captcha [of lib archive w1] by (simp add: rw)
  have r: "r = fst (save_captcha lib archive w1)"
    by (simp add: rw)
  have first': "fst (solve lib self captcha_type page_url force_enable force_debug w) =
      (if save_solved_captchas self \<and> str_lower ct = ''normal_captcha''
       then
         (case (is_elem_present ID captcha_img_id w, is_elem_present ID captcha_input_id w) of
            (Some i, Some j) \<Rightarrow>
              (case get_attribute i ''src'' w of
                 None \<Rightarrow>
                   Raise (Exn (OtherException ''TypeError'') ''object is not subscriptable'')
               | Some src \<Rightarrow>
                   (case open_error w archive of
                      Some e \<Rightarrow> Raise e
                    | None \<Rightarrow>
                        (case decodebytes lib (drop 23 src) of
                           Raise e \<Rightarrow> Raise e
                         | Return payload \<Rightarrow>
                             Return (PBool True, ''Manually solved CAPTCHA''))))
          | _ \<Rightarrow> Return (PBool True, ''Manually solved CAPTCHA''))
       else Return (PBool True, ''Manually solved CAPTCHA''))"
    using sv [folded r]
    by (auto simp: eq rw manual_done_def split: option.splits res.splits)
  have first: "fst (solve lib self captcha_type page_url force_enable force_debug w) =
      (if save_solved_captchas self \<and> str_lower ct = ''normal_captcha''
       then
         (case (is_elem_present ID captcha_img_id w, is_elem_present ID captcha_input_id w) of
            (Some i, Some j) \<Rightarrow>
              (case get_attribute i ''src'' w of
                 None \<Rightarrow>
                   Raise (Exn (OtherException ''TypeError'') ''object is not subscriptable'')
               | Some src \<Rightarrow>
                   (case open_error w
                           (solved_path (str_of_attribute (get_attribute j ''value'' w))) of
                      Some e \<Rightarrow> Raise e
                    | None \<Rightarrow>
                        (case decodebytes lib (drop 23 src) of
                           Raise e \<Rightarrow> Raise e
                         | Return payload \<Rightarrow>
                             Return (PBool True, ''Manually solved CAPTCHA''))))
          | _ \<Rightarrow> Return (PBool True, ''Manually solved CAPTCHA''))
       else Return (PBool True, ''Manually solved CAPTCHA''))"
    unfolding first' by (simp add: arch split: option.split)
  have second: "stdout (snd (solve lib self captcha_type page_url force_enable force_debug w))
        = stdout w @ [''Press enter to proceed: '']"
    by (auto simp: eq rw manual_done_def log_entry_if_def out1 out2
        split: option.splits res.splits)
  show ?thesis
    using first second by (simp add: ct_def)
qed

theorem manual_solve_outcome_witness:
  "fst (solve lib0 manual_self (Some ''normal_captcha'') None False False manual_page)
     = Return (PBool True, ''Manually solved CAPTCHA'')
   \<and> stdout (snd (solve lib0 manual_self (Some ''normal_captcha'') None False False manual_page))
     = [''Press enter to proceed: '']
   \<and> fst (solve lib0 manual_self (Some ''normal_captcha'') None False False slash_page)
     = Raise (Exn (OtherException ''FileNotFoundError'') ''solved_captchas/a/b.jpeg'')"
proof -
  have off: "\<not> enabled manual_self" "\<not> False"
    by (simp_all add: manual_self_def)
  have ack: "stdin manual_page \<noteq> []" "stdin slash_page \<noteq> []"
    by (simp_all add: manual_page_def slash_page_def)
  have kind: "save_solved_captchas manual_self"
    "str_lower (or_default (Some ''normal_captcha'') ''recaptcha_v2'') = ''normal_captcha''"
    by (simp_all add: manual_self_def self0_def or_default_def str_lower_def lower_char_def)
  have page: "is_elem_present ID captcha_img_id manual_page = Some 0"
    "is_elem_present ID captcha_input_id manual_page = Some 1"
    "get_attribute 0 ''src'' manual_page = Some ''data:image/jpeg;base64,AAAA''"
    "get_attribute (Suc 0) ''value'' manual_page = Some ''AB12CD''"
    "stdout manual_page = []"
    "open_error manual_page ''solved_captchas/AB12CD.jpeg'' = None"
    by (simp_all add: is_elem_present_def get_attribute_def manual_page_def world0_def
        img_el_def typed_input_el_def selects_def captcha_img_id_def captcha_input_id_def
        world0_accepts_archive)
  have slash: "is_elem_present ID captcha_img_id slash_page = Some 0"
    "is_elem_present ID captcha_input_id slash_page = Some 1"
    "get_attribute 0 ''src'' slash_page = Some ''data:image/jpeg;base64,AAAA''"
    "get_attribute (Suc 0) ''value'' slash_page = Some ''a/b''"
    "open_error slash_page ''solved_captchas/a/b.jpeg''
       = Some (Exn (OtherException ''FileNotFoundError'') ''solved_captchas/a/b.jpeg'')"
    by (simp_all add: is_elem_present_def get_attribute_def slash_page_def world0_def
        img_el_def slash_input_el_def selects_def captcha_img_id_def captcha_input_id_def
        missing_directory_def dirname_def)
  have paths: "solved_path ''a/b'' = ''solved_captchas/a/b.jpeg''"
    by (simp add: solved_path_def path_join_def)
  have dec: "decodebytes lib0 ''AAAA'' = Return three_zero_bytes"
    by (simp add: lib0_def)
  note t1 = manual_solve_outcome [where lib = lib0 and captcha_type = "Some ''normal_captcha''"
      and page_url = None and force_debug = False, OF off ack(1)]
  note t2 = manual_solve_outcome [where lib = lib0 and captcha_type = "Some ''normal_captcha''"
      and page_url = None and force_debug = False, OF off ack(2)]
  show ?thesis
    using t1 t2
    by (simp add: kind page slash paths dec solved_path_AB12CD str_of_attribute_def)
qed

end

